theory Spec2Isabelle
  imports Complex_Main
begin

section \<open>Data model (src/app/models.py)\<close>

text \<open>
  Naive UTC datetimes are integers counting microseconds since the epoch, the resolution
  of Python's \<open>datetime\<close>; \<open>timedelta(seconds=k)\<close> is \<open>k * 1000000\<close> and
  \<open>timedelta(days=1)\<close> is \<open>86400 * 1000000\<close>. Python's unbounded \<open>int\<close> is \<open>int\<close>;
  primary keys are \<open>nat\<close>.
\<close>

type_synonym datetime = int

definition timedelta_seconds :: "int \<Rightarrow> int" where
  "timedelta_seconds k = k * 1000000"

definition timedelta_days :: "int \<Rightarrow> int" where
  "timedelta_days d = d * 86400 * 1000000"

datatype SubscriptionStatus = active | canceled | past_due | pending_activation | expired

datatype PaymentStatus = pending | approved | refused

datatype WebhookProcessingStatus = received | processed | failed | ignored

text \<open>
  The exceptions of the program. \<open>InvalidPayloadError\<close>, \<open>NotFoundError\<close> and
  \<open>ReplayAttackError\<close> are the classes of models.py; \<open>RuntimeError\<close> is raised by the
  secret loader, \<open>IntegrityError\<close> by the store on a violated unique constraint,
  \<open>JSONDecodeError\<close> by \<open>json.loads\<close>, and \<open>PyException\<close> stands for every other
  exception a library call raises (pydantic's \<open>ValidationError\<close>, \<open>ValueError\<close>,
  \<open>OverflowError\<close>). Each carries the text \<open>str(exc)\<close> yields.
\<close>

datatype error =
    InvalidPayloadError string
  | NotFoundError string
  | ReplayAttackError string
  | RuntimeError string
  | IntegrityError string
  | JSONDecodeError string
  | PyException string

fun str_exc :: "error \<Rightarrow> string" where
  "str_exc (InvalidPayloadError m) = m"
| "str_exc (NotFoundError m) = m"
| "str_exc (ReplayAttackError m) = m"
| "str_exc (RuntimeError m) = m"
| "str_exc (IntegrityError m) = m"
| "str_exc (JSONDecodeError m) = m"
| "str_exc (PyException m) = m"

text \<open>JSON values as \<open>json.loads\<close> returns them; an object is a \<open>dict\<close>, kept as an
  association list with one entry per key.\<close>

datatype pynum = PyInt int | PyFloat real

datatype json =
    JNull
  | JBool bool
  | JNum pynum
  | JStr string
  | JArr "json list"
  | JObj "(string \<times> json) list"

record WebhookEventIn =
  w_event_id :: string
  w_event_type :: string
  w_payload_json :: "(string \<times> json) list"

record VerifiedWebhookData =
  raw_body :: string
  v_signature :: string
  v_timestamp :: int

record SubscriptionCreateIn =
  in_customer_id :: "nat option"
  in_customer_email :: "string option"
  in_plan_id :: int

record SubscriptionCreateOut =
  out_subscription_id :: nat
  out_provider_subscription_id :: string
  out_customer_id :: nat
  out_provider_customer_id :: string
  out_status :: SubscriptionStatus
  out_plan_id :: int

text \<open>\<open>current_period_end: str | int | float | None\<close> of the two payload classes.\<close>

datatype period_value = PeriodStr string | PeriodNum pynum | PeriodNone

text \<open>\<open>PaymentSucceededPayload\<close> and \<open>InvoicePaymentFailedPayload\<close> declare the same
  fields with the same types and defaults; one record serves both.\<close>

record Payload =
  p_provider_customer_id :: string
  p_provider_subscription_id :: string
  p_amount :: int
  p_currency :: string
  p_current_period_end :: period_value
  p_payment_id :: "string option"
  p_invoice_id :: "string option"

record Customer =
  cus_id :: nat
  cus_provider_customer_id :: "string option"
  cus_email :: string
  cus_status :: "string option"
  cus_created_at :: datetime

record Subscription =
  sub_id :: nat
  sub_customer_id :: nat
  sub_plan_id :: int
  sub_status :: SubscriptionStatus
  current_period_end :: datetime
  cancel_at_period_end :: bool
  past_due_since :: "datetime option"
  canceled_at :: "datetime option"
  expired_at :: "datetime option"
  provider_subscription_id :: string
  access_revoked :: bool
  sub_created_at :: datetime
  updated_at :: datetime

record Payment =
  pay_id :: nat
  pay_customer_id :: nat
  pay_subscription_id :: nat
  pay_status :: PaymentStatus
  pay_amount :: int
  pay_currency :: string
  provider_payment_id :: string
  provider_invoice_id :: string
  pay_processed_at :: "datetime option"
  pay_provider :: string

record WebhookEvent =
  ev_id :: nat
  ev_provider :: string
  event_id :: string
  event_type :: string
  payload_raw :: string
  signature :: string
  signature_timestamp :: int
  received_at :: datetime
  processed_at :: "datetime option"
  attempt_count :: int
  next_retry_at :: "datetime option"
  needs_attention :: bool
  processing_status :: WebhookProcessingStatus
  error_message :: "string option"

section \<open>The store, the counters and the library\<close>

text \<open>The module-level dict \<open>METRICS\<close> of services.py.\<close>

record Metrics =
  webhook_processed :: nat
  webhook_failed :: nat
  webhook_ignored :: nat
  webhook_replayed :: nat

text \<open>
  The state a service function works on: the four tables, each a list of rows in
  insertion order, and the process-wide counters. A service function of services.py is
  called by api.py inside \<open>with Session(engine) as session\<close>; the model of a service
  function takes the stored state and returns the state as the session leaves it: what
  the last \<open>session.commit()\<close> wrote, or the tables it started from when the function
  raises before a commit has succeeded (the counters are process-wide and keep what
  the call has added). An exception does not undo what the code has already
  assigned to an object of the session, so a function that may raise after mutating
  returns the state reached at the \<open>raise\<close> together with the error.
\<close>

record state =
  customers :: "Customer list"
  subscriptions :: "Subscription list"
  payments :: "Payment list"
  webhook_events :: "WebhookEvent list"
  metrics :: Metrics

text \<open>A datetime as \<open>datetime.fromisoformat\<close> returns it: the wall-clock reading and
  the UTC offset when the text carried one.\<close>

record pydatetime =
  wall_clock :: datetime
  tzinfo :: "int option"

text \<open>
  The library calls whose code is not part of the repository are parameters of the
  model: \<open>json.loads\<close>, pydantic's \<open>model_validate\<close> for the payload classes,
  \<open>datetime.fromisoformat\<close>, \<open>datetime.utcfromtimestamp\<close> and the builtin \<open>str\<close> on a
  JSON value. A call that raises returns \<open>Inl\<close>.

  The engine is created in app/repositories.py, which is not among the sources, so two
  behaviours of the store are parameters as well. \<open>bind_integer n\<close> is the exception the
  driver raises when the Python int \<open>n\<close> is written to an INTEGER column whose range it
  exceeds (\<open>None\<close> when the column takes it). \<open>pending_rollback e\<close> is the exception a
  session raises on \<open>commit()\<close> when an earlier flush of the same session has failed with
  \<open>e\<close> and no \<open>rollback()\<close> has been issued since.
\<close>

record pylib =
  json_loads :: "string \<Rightarrow> error + json"
  model_validate :: "(string \<times> json) list \<Rightarrow> error + Payload"
  fromisoformat :: "string \<Rightarrow> error + pydatetime"
  utcfromtimestamp :: "pynum \<Rightarrow> error + datetime"
  py_str :: "json \<Rightarrow> string"
  bind_integer :: "int \<Rightarrow> error option"
  pending_rollback :: "error \<Rightarrow> error"

section \<open>Failure marking (services.py, \<open>_mark_failed\<close>)\<close>

text \<open>All readings of \<open>utcnow()\<close> within one call are the one parameter \<open>now\<close>.\<close>

definition mark_failed :: "datetime \<Rightarrow> Metrics \<Rightarrow> WebhookEvent \<Rightarrow> string \<Rightarrow> WebhookEvent \<times> Metrics" where
  "mark_failed now m event message =
     (let event1 = event\<lparr>attempt_count := attempt_count event + 1\<rparr>;
          retry_delay_seconds = min (300 * attempt_count event1) 3600;
          event2 = event1\<lparr>next_retry_at := Some (now + timedelta_seconds retry_delay_seconds)\<rparr>;
          event3 = event2\<lparr>needs_attention := (attempt_count event2 \<ge> 3)\<rparr>;
          event4 = event3\<lparr>processing_status := failed\<rparr>;
          event5 = event4\<lparr>processed_at := Some now\<rparr>;
          event6 = event5\<lparr>error_message := Some message\<rparr>
      in (event6, m\<lparr>webhook_failed := webhook_failed m + 1\<rparr>))"

section \<open>Store access\<close>

text \<open>
  An autoincremented primary key: rows are never deleted, so the next key is one more
  than the largest stored.
\<close>

definition next_id :: "nat list \<Rightarrow> nat" where
  "next_id ids = Suc (fold max ids 0)"

text \<open>
  An object loaded by the session is its row. \<open>session.add(obj)\<close> followed by a flush or
  commit rewrites the row with the object's primary key when the object was loaded from
  the store, and appends a row when the object is new.
\<close>

definition update_customer :: "Customer \<Rightarrow> state \<Rightarrow> state" where
  "update_customer c st =
     st\<lparr>customers := map (\<lambda>r. if cus_id r = cus_id c then c else r) (customers st)\<rparr>"

definition update_subscription :: "Subscription \<Rightarrow> state \<Rightarrow> state" where
  "update_subscription s st =
     st\<lparr>subscriptions := map (\<lambda>r. if sub_id r = sub_id s then s else r) (subscriptions st)\<rparr>"

definition update_event :: "WebhookEvent \<Rightarrow> state \<Rightarrow> state" where
  "update_event e st =
     st\<lparr>webhook_events := map (\<lambda>r. if ev_id r = ev_id e then e else r) (webhook_events st)\<rparr>"

definition insert_payment :: "Payment \<Rightarrow> state \<Rightarrow> state" where
  "insert_payment p st =
     st\<lparr>payments := payments st @ [p\<lparr>pay_id := next_id (map pay_id (payments st))\<rparr>]\<rparr>"

text \<open>
  \<open>session.commit()\<close> after a dispatch. The commit flushes the rows the session has
  added or changed and then makes them durable. The amount of a payment row comes from
  the payload, where it is an unbounded int, so the INSERT of a payment row the dispatch
  has added can be refused by the driver; the flush then raises, the transaction is
  rolled back by the store and nothing of the session is written. The other integers a
  delivery writes are bounded: the timestamp is within 300 seconds of the clock when it
  reaches \<open>process_webhook\<close>, and \<open>attempt_count\<close> grows by one per failure. \<open>stored\<close> is
  the store as the session found it, \<open>session\<close> the state the session has reached; the
  payment rows added are those beyond the stored ones.
\<close>

fun flush_payments :: "pylib \<Rightarrow> Payment list \<Rightarrow> error option" where
  "flush_payments lib [] = None"
| "flush_payments lib (p # ps) =
     (case bind_integer lib (pay_amount p) of
        Some e \<Rightarrow> Some e
      | None \<Rightarrow> flush_payments lib ps)"

definition commit :: "pylib \<Rightarrow> state \<Rightarrow> state \<Rightarrow> error + state" where
  "commit lib stored session =
     (case flush_payments lib (drop (length (payments stored)) (payments session)) of
        Some e \<Rightarrow> Inl e
      | None \<Rightarrow> Inr session)"

section \<open>Event handlers (services.py)\<close>

text \<open>\<open>value.replace("Z", "+00:00")\<close>\<close>

definition replace_Z :: "string \<Rightarrow> string" where
  "replace_Z s = concat (map (\<lambda>c. if c = CHR ''Z'' then ''+00:00'' else [c]) s)"

definition parse_period_end :: "pylib \<Rightarrow> datetime \<Rightarrow> period_value \<Rightarrow> error + datetime" where
  "parse_period_end lib now v =
     (case v of
        PeriodNum n \<Rightarrow> utcfromtimestamp lib n
      | PeriodStr s \<Rightarrow>
          (case fromisoformat lib (replace_Z s) of
             Inl e \<Rightarrow> Inl e
           | Inr parsed \<Rightarrow>
               (case tzinfo parsed of
                  Some off \<Rightarrow> Inr (wall_clock (parsed\<lparr>tzinfo := None\<rparr>))
                | None \<Rightarrow> Inr (wall_clock parsed)))
      | PeriodNone \<Rightarrow> Inr now)"

definition get_customer_by_provider_id :: "state \<Rightarrow> string \<Rightarrow> error + Customer" where
  "get_customer_by_provider_id st pcid =
     (case find (\<lambda>c. cus_provider_customer_id c = Some pcid) (customers st) of
        None \<Rightarrow> Inl (InvalidPayloadError ''provider_customer_id not found'')
      | Some customer \<Rightarrow> Inr customer)"

definition get_subscription_by_provider_id :: "state \<Rightarrow> string \<Rightarrow> nat \<Rightarrow> error + Subscription" where
  "get_subscription_by_provider_id st psid customer_id =
     (case find (\<lambda>s. provider_subscription_id s = psid) (subscriptions st) of
        None \<Rightarrow> Inl (InvalidPayloadError ''provider_subscription_id not found'')
      | Some subscription \<Rightarrow>
          if sub_customer_id subscription \<noteq> customer_id
          then Inl (InvalidPayloadError ''provider_subscription_id belongs to a different customer_id'')
          else Inr subscription)"

text \<open>\<open>str(a or b)\<close> for an optional string \<open>a\<close>: \<open>None\<close> and the empty string are falsy.\<close>

definition str_or :: "string option \<Rightarrow> string \<Rightarrow> string" where
  "str_or a b = (case a of None \<Rightarrow> b | Some s \<Rightarrow> if s = [] then b else s)"

text \<open>
  A handler returns whether it raised, the state of the session and the event object as
  they are when it returns or raises.
\<close>

type_synonym handler =
  "pylib \<Rightarrow> datetime \<Rightarrow> state \<Rightarrow> WebhookEvent \<Rightarrow> (string \<times> json) list
     \<Rightarrow> (error + unit) \<times> state \<times> WebhookEvent"

definition handle_payment_succeeded :: handler where
  "handle_payment_succeeded lib now st event payload_data =
     (case model_validate lib payload_data of
        Inl e \<Rightarrow> (Inl e, st, event)
      | Inr payload \<Rightarrow>
     (case get_customer_by_provider_id st (p_provider_customer_id payload) of
        Inl e \<Rightarrow> (Inl e, st, event)
      | Inr customer \<Rightarrow>
     (case parse_period_end lib now (p_current_period_end payload) of
        Inl e \<Rightarrow> (Inl e, st, event)
      | Inr period_end \<Rightarrow>
     (case get_subscription_by_provider_id st (p_provider_subscription_id payload) (cus_id customer) of
        Inl e \<Rightarrow> (Inl e, st, event)
      | Inr subscription \<Rightarrow>
          if period_end < current_period_end subscription
          then (Inr (), st,
                event\<lparr>processing_status := ignored, processed_at := Some now,
                      error_message := Some ''stale event ignored''\<rparr>)
          else
            let subscription1 =
                  (if sub_status subscription \<in> {pending_activation, past_due}
                   then subscription\<lparr>sub_status := active\<rparr> else subscription);
                subscription2 =
                  subscription1\<lparr>canceled_at := None, expired_at := None,
                    current_period_end := period_end, past_due_since := None,
                    access_revoked := False, updated_at := now\<rparr>;
                payment =
                  \<lparr>pay_id = 0, pay_customer_id = cus_id customer,
                   pay_subscription_id = sub_id subscription2, pay_status = approved,
                   pay_amount = p_amount payload, pay_currency = p_currency payload,
                   provider_payment_id = str_or (p_payment_id payload) (event_id event),
                   provider_invoice_id = str_or (p_invoice_id payload) [],
                   pay_processed_at = Some now, pay_provider = ev_provider event\<rparr>
            in (Inr (), insert_payment payment (update_subscription subscription2 st), event)))))"

definition handle_invoice_payment_failed :: handler where
  "handle_invoice_payment_failed lib now st event payload_data =
     (case model_validate lib payload_data of
        Inl e \<Rightarrow> (Inl e, st, event)
      | Inr payload \<Rightarrow>
     (case get_customer_by_provider_id st (p_provider_customer_id payload) of
        Inl e \<Rightarrow> (Inl e, st, event)
      | Inr customer \<Rightarrow>
     (case parse_period_end lib now (p_current_period_end payload) of
        Inl e \<Rightarrow> (Inl e, st, event)
      | Inr period_end \<Rightarrow>
     (case get_subscription_by_provider_id st (p_provider_subscription_id payload) (cus_id customer) of
        Inl e \<Rightarrow> (Inl e, st, event)
      | Inr subscription \<Rightarrow>
          if period_end < current_period_end subscription
          then (Inr (), st,
                event\<lparr>processing_status := ignored, processed_at := Some now,
                      error_message := Some ''stale event ignored''\<rparr>)
          else
            let subscription1 =
                  (if sub_status subscription = active
                   then subscription\<lparr>sub_status := past_due, past_due_since := Some now\<rparr>
                   else subscription);
                subscription2 = subscription1\<lparr>updated_at := now\<rparr>;
                payment =
                  \<lparr>pay_id = 0, pay_customer_id = cus_id customer,
                   pay_subscription_id = sub_id subscription2, pay_status = refused,
                   pay_amount = p_amount payload, pay_currency = p_currency payload,
                   provider_payment_id = str_or (p_payment_id payload) (event_id event),
                   provider_invoice_id = str_or (p_invoice_id payload) [],
                   pay_processed_at = Some now, pay_provider = ev_provider event\<rparr>
            in (Inr (), insert_payment payment (update_subscription subscription2 st), event)))))"

definition handle_unknown_event :: "datetime \<Rightarrow> WebhookEvent \<Rightarrow> WebhookEvent" where
  "handle_unknown_event now event = event\<lparr>processing_status := ignored, processed_at := Some now\<rparr>"

definition EVENT_HANDLERS :: "string \<Rightarrow> handler option" where
  "EVENT_HANDLERS =
     [''payment.succeeded'' \<mapsto> handle_payment_succeeded,
      ''invoice.payment_failed'' \<mapsto> handle_invoice_payment_failed]"

section \<open>Dispatch (services.py, \<open>dispatch_event\<close>)\<close>

definition dispatch_event :: "pylib \<Rightarrow> datetime \<Rightarrow> state \<Rightarrow> WebhookEvent \<Rightarrow> (error + unit) \<times> state \<times> WebhookEvent" where
  "dispatch_event lib now st event =
     (case json_loads lib (payload_raw event) of
        Inl e \<Rightarrow> (Inl e, st, event)
      | Inr event_payload \<Rightarrow>
     (case event_payload of
        JObj kvs \<Rightarrow>
          (case (case map_of kvs ''payload_json'' of None \<Rightarrow> event_payload | Some v \<Rightarrow> v) of
             JObj payload_data \<Rightarrow>
               (case EVENT_HANDLERS (event_type event) of
                  None \<Rightarrow> (Inr (), st, handle_unknown_event now event)
                | Some handler \<Rightarrow>
                    (case handler lib now st event payload_data of
                       (Inl e, st1, event1) \<Rightarrow> (Inl e, st1, event1)
                     | (Inr u, st1, event1) \<Rightarrow>
                         (Inr (), st1,
                          event1\<lparr>processing_status := processed, processed_at := Some now\<rparr>)))
           | _ \<Rightarrow> (Inl (InvalidPayloadError ''payload_json must be an object''), st, event))
      | _ \<Rightarrow> (Inl (InvalidPayloadError ''payload_json must be an object''), st, event)))"

section \<open>Subscription creation (services.py, \<open>create_subscription\<close>)\<close>

definition digit_char :: "nat \<Rightarrow> char" where
  "digit_char d = char_of (48 + d)"

function str_nat :: "nat \<Rightarrow> string" where
  "str_nat n = (if n < 10 then [digit_char n] else str_nat (n div 10) @ [digit_char (n mod 10)])"
  by pat_completeness auto
termination
  by (relation "measure id") auto

definition quoted :: "string \<Rightarrow> string" where
  "quoted s = [CHR 0x27] @ s @ [CHR 0x27]"

definition get_or_create_customer_by_email :: "datetime \<Rightarrow> state \<Rightarrow> string \<Rightarrow> Customer \<times> state" where
  "get_or_create_customer_by_email now st customer_email =
     (case find (\<lambda>c. cus_email c = customer_email) (customers st) of
        Some customer \<Rightarrow> (customer, st)
      | None \<Rightarrow>
          let customer = \<lparr>cus_id = next_id (map cus_id (customers st)),
                          cus_provider_customer_id = None, cus_email = customer_email,
                          cus_status = Some ''active'', cus_created_at = now\<rparr>
          in (customer, st\<lparr>customers := customers st @ [customer]\<rparr>))"

text \<open>
  \<open>hex\<close> is the text \<open>uuid.uuid4().hex\<close> returns. The flush raises when the unique
  constraint on \<open>provider_customer_id\<close> is violated.
\<close>

definition ensure_provider_customer_id :: "string \<Rightarrow> state \<Rightarrow> Customer \<Rightarrow> error + (string \<times> state)" where
  "ensure_provider_customer_id hex st customer =
     (let current = (case cus_provider_customer_id customer of None \<Rightarrow> [] | Some pcid \<Rightarrow> pcid)
      in if current \<noteq> [] then Inr (current, st)
         else
           let provider_customer_id = ''cus_'' @ take 16 hex
           in if find (\<lambda>c. cus_provider_customer_id c = Some provider_customer_id \<and>
                            cus_id c \<noteq> cus_id customer) (customers st) \<noteq> None
              then Inl (IntegrityError ''UNIQUE constraint failed: customer.provider_customer_id'')
              else Inr (provider_customer_id,
                        update_customer (customer\<lparr>cus_provider_customer_id := Some provider_customer_id\<rparr>) st))"

text \<open>\<open>str(subscription_in.customer_email)\<close>\<close>

definition str_email :: "string option \<Rightarrow> string" where
  "str_email e = (case e of None \<Rightarrow> ''None'' | Some s \<Rightarrow> s)"

definition create_subscription ::
  "datetime \<Rightarrow> string \<Rightarrow> string \<Rightarrow> state \<Rightarrow> SubscriptionCreateIn \<Rightarrow> (error + SubscriptionCreateOut) \<times> state" where
  "create_subscription now hex1 hex2 st subscription_in =
     (if in_customer_id subscription_in = None \<and> in_customer_email subscription_in = None
      then (Inl (InvalidPayloadError ''customer_id or customer_email is required''), st)
      else
        case (case in_customer_id subscription_in of
                Some cid \<Rightarrow>
                  (case find (\<lambda>c. cus_id c = cid) (customers st) of
                     None \<Rightarrow> Inl (NotFoundError (''Customer '' @ quoted (str_nat cid) @ '' not found''))
                   | Some customer \<Rightarrow> Inr (customer, st))
              | None \<Rightarrow>
                  Inr (get_or_create_customer_by_email now st
                         (str_email (in_customer_email subscription_in))))
        of
          Inl e \<Rightarrow> (Inl e, st)
        | Inr (customer, st1) \<Rightarrow>
            (case ensure_provider_customer_id hex1 st1 customer of
               Inl e \<Rightarrow> (Inl e, st)
             | Inr (provider_customer_id, st2) \<Rightarrow>
                 let psid = ''sub_'' @ take 16 hex2;
                     subscription =
                       \<lparr>sub_id = next_id (map sub_id (subscriptions st2)),
                        sub_customer_id = cus_id customer, sub_plan_id = in_plan_id subscription_in,
                        sub_status = pending_activation, current_period_end = now,
                        cancel_at_period_end = False, past_due_since = None, canceled_at = None,
                        expired_at = None, provider_subscription_id = psid,
                        access_revoked = False, sub_created_at = now, updated_at = now\<rparr>
                 in if find (\<lambda>s. provider_subscription_id s = psid) (subscriptions st2) \<noteq> None
                    then (Inl (IntegrityError ''UNIQUE constraint failed: subscription.provider_subscription_id''), st)
                    else (Inr \<lparr>out_subscription_id = sub_id subscription,
                               out_provider_subscription_id = psid,
                               out_customer_id = cus_id customer,
                               out_provider_customer_id = provider_customer_id,
                               out_status = sub_status subscription,
                               out_plan_id = sub_plan_id subscription\<rparr>,
                          st2\<lparr>subscriptions := subscriptions st2 @ [subscription]\<rparr>)))"

section \<open>Webhook processing (services.py)\<close>

definition get_existing_event :: "state \<Rightarrow> string \<Rightarrow> string \<Rightarrow> WebhookEvent option" where
  "get_existing_event st provider eid =
     find (\<lambda>e. ev_provider e = provider \<and> event_id e = eid) (webhook_events st)"

text \<open>The counter update that follows a dispatch that did not raise.\<close>

definition count_dispatched :: "WebhookEvent \<Rightarrow> Metrics \<Rightarrow> Metrics" where
  "count_dispatched event m =
     (if processing_status event = ignored
      then m\<lparr>webhook_ignored := webhook_ignored m + 1\<rparr>
      else m\<lparr>webhook_processed := webhook_processed m + 1\<rparr>)"

text \<open>
  In the two replay branches the session has only loaded the event, and the commit writes
  that row alone. In the branch that dispatches a failed event again, the commit of the
  outcome is inside the \<open>try\<close>: when it raises, the \<open>except\<close> branch marks the event object
  failed and commits once more, and that second commit raises because the session has
  not been rolled back; the call then leaves the store as it found it, with the counters
  (which are no part of the transaction) as the branch has left them. When the commit of
  the \<open>except\<close> branch is the first to raise, its exception is the one that leaves the call.
\<close>

definition handle_existing_event ::
  "pylib \<Rightarrow> datetime \<Rightarrow> state \<Rightarrow> WebhookEvent \<Rightarrow> VerifiedWebhookData \<Rightarrow> (error + WebhookEvent) \<times> state" where
  "handle_existing_event lib now st event verified =
     (if v_timestamp verified \<noteq> signature_timestamp event then
        (case mark_failed now (metrics st) event ''replay timestamp mismatch'' of
           (event1, m) \<Rightarrow>
             (Inl (ReplayAttackError ''replay timestamp mismatch''),
              update_event event1 (st\<lparr>metrics := m\<rparr>)))
      else if v_signature verified \<noteq> signature event then
        (case mark_failed now (metrics st) event ''replay signature mismatch'' of
           (event1, m) \<Rightarrow>
             (Inl (ReplayAttackError ''replay signature mismatch''),
              update_event event1 (st\<lparr>metrics := m\<rparr>)))
      else if processing_status event \<in> {processed, ignored} then
        (Inr event, st\<lparr>metrics := (metrics st)\<lparr>webhook_replayed := webhook_replayed (metrics st) + 1\<rparr>\<rparr>)
      else if processing_status event = failed then
        (case dispatch_event lib now st event of
           (Inr u, st1, event1) \<Rightarrow>
             let event2 = event1\<lparr>next_retry_at := None, needs_attention := False, error_message := None\<rparr>
             in (case commit lib st (update_event event2 st1) of
                   Inr st2 \<Rightarrow> (Inr event2, st2)
                 | Inl exc \<Rightarrow>
                     (case mark_failed now (metrics st1) event2 (str_exc exc) of
                        (event3, m) \<Rightarrow> (Inl (pending_rollback lib exc), st\<lparr>metrics := m\<rparr>)))
         | (Inl e, st1, event1) \<Rightarrow>
             (case mark_failed now (metrics st1) event1 (str_exc e) of
                (event2, m) \<Rightarrow>
                  (case commit lib st (update_event event2 (st1\<lparr>metrics := m\<rparr>)) of
                     Inr st2 \<Rightarrow> (Inl e, st2)
                   | Inl exc \<Rightarrow> (Inl exc, st\<lparr>metrics := m\<rparr>))))
      else (Inr event, st))"

text \<open>The flush of a new event row: the unique constraint on \<open>(provider, event_id)\<close>.\<close>

definition flush_new_event :: "state \<Rightarrow> WebhookEvent \<Rightarrow> error + state" where
  "flush_new_event st event =
     (if find (\<lambda>e. ev_provider e = ev_provider event \<and> event_id e = event_id event) (webhook_events st) \<noteq> None
      then Inl (IntegrityError ''UNIQUE constraint failed: webhookevent.provider, webhookevent.event_id'')
      else Inr (st\<lparr>webhook_events := webhook_events st @ [event]\<rparr>))"

text \<open>The \<open>WebhookEvent(...)\<close> a first delivery constructs; \<open>received_at\<close> is the default
  \<open>utcnow()\<close>, and the flush gives it the next primary key.\<close>

definition new_webhook_event ::
  "datetime \<Rightarrow> state \<Rightarrow> string \<Rightarrow> WebhookEventIn \<Rightarrow> VerifiedWebhookData \<Rightarrow> WebhookEvent" where
  "new_webhook_event now st provider webhook verified =
     \<lparr>ev_id = next_id (map ev_id (webhook_events st)), ev_provider = provider,
      event_id = w_event_id webhook, event_type = w_event_type webhook,
      payload_raw = raw_body verified, signature = v_signature verified,
      signature_timestamp = v_timestamp verified, received_at = now,
      processed_at = None, attempt_count = 1, next_retry_at = None,
      needs_attention = False, processing_status = received, error_message = None\<rparr>"

text \<open>
  The counter is updated before the commit at the end of the \<open>try\<close>. When that commit
  raises, the \<open>except Exception\<close> branch marks the event object failed and commits again;
  the session has not been rolled back, so the second commit raises, the new event row
  of the flush is gone with the transaction, and the call leaves the store as it found
  it.
\<close>

definition process_webhook ::
  "pylib \<Rightarrow> datetime \<Rightarrow> state \<Rightarrow> string \<Rightarrow> WebhookEventIn \<Rightarrow> VerifiedWebhookData \<Rightarrow> (error + WebhookEvent) \<times> state" where
  "process_webhook lib now st provider webhook verified =
     (case get_existing_event st provider (w_event_id webhook) of
        Some existing \<Rightarrow> handle_existing_event lib now st existing verified
      | None \<Rightarrow>
          let event = new_webhook_event now st provider webhook verified
          in (case flush_new_event st event of
                Inl err \<Rightarrow>
                  (case get_existing_event st provider (w_event_id webhook) of
                     None \<Rightarrow> (Inl err, st)
                   | Some existing \<Rightarrow> handle_existing_event lib now st existing verified)
              | Inr st0 \<Rightarrow>
                  (case dispatch_event lib now st0 event of
                     (Inr u, st1, event1) \<Rightarrow>
                       let m = count_dispatched event1 (metrics st1);
                           event2 = event1\<lparr>next_retry_at := None, needs_attention := False\<rparr>
                       in (case commit lib st (update_event event2 (st1\<lparr>metrics := m\<rparr>)) of
                             Inr st2 \<Rightarrow> (Inr event2, st2)
                           | Inl exc \<Rightarrow>
                               (case mark_failed now m event2 (str_exc exc) of
                                  (event3, m3) \<Rightarrow>
                                    (Inl (pending_rollback lib exc), st\<lparr>metrics := m3\<rparr>)))
                   | (Inl e, st1, event1) \<Rightarrow>
                       (case mark_failed now (metrics st1) event1 (str_exc e) of
                          (event2, m) \<Rightarrow>
                            (case commit lib st (update_event event2 (st1\<lparr>metrics := m\<rparr>)) of
                               Inr st2 \<Rightarrow> (Inl e, st2)
                             | Inl exc \<Rightarrow> (Inl exc, st\<lparr>metrics := m\<rparr>))))))"

definition list_webhook_events :: "state \<Rightarrow> WebhookEvent list" where
  "list_webhook_events st = rev (sort_key ev_id (webhook_events st))"

definition get_webhook_event :: "state \<Rightarrow> string \<Rightarrow> string option \<Rightarrow> error + WebhookEvent" where
  "get_webhook_event st eid provider =
     (case filter (\<lambda>e. event_id e = eid \<and>
                        (case provider of None \<Rightarrow> True
                         | Some p \<Rightarrow> if p = [] then True else ev_provider e = p))
                  (webhook_events st) of
        [] \<Rightarrow> Inl (NotFoundError (''Webhook '' @ quoted eid @ '' not found''))
      | [event] \<Rightarrow> Inr event
      | _ \<Rightarrow> Inl (InvalidPayloadError ''multiple events found; specify provider''))"

text \<open>The select statement of \<open>retry_failed_webhooks\<close>. The commit that ends the sweep,
  and the commit that ends the admin reprocess below, are taken to succeed.\<close>

definition retry_candidates :: "datetime \<Rightarrow> nat \<Rightarrow> state \<Rightarrow> WebhookEvent list" where
  "retry_candidates now limit st =
     take limit (sort_key ev_id
       (filter (\<lambda>e. processing_status e = failed \<and> needs_attention e = False \<and>
                     (case next_retry_at e of None \<Rightarrow> True | Some t \<Rightarrow> t \<le> now))
               (webhook_events st)))"

fun retry_loop ::
  "pylib \<Rightarrow> datetime \<Rightarrow> WebhookEvent list \<Rightarrow> state \<Rightarrow> nat list \<Rightarrow> nat list \<Rightarrow> state \<times> nat list \<times> nat list" where
  "retry_loop lib now [] st processed_ids failed_ids = (st, processed_ids, failed_ids)"
| "retry_loop lib now (event # events) st processed_ids failed_ids =
     (case dispatch_event lib now st event of
        (Inr u, st1, event1) \<Rightarrow>
          let m = count_dispatched event1 (metrics st1);
              event2 = event1\<lparr>next_retry_at := None, needs_attention := False, error_message := None\<rparr>
          in retry_loop lib now events (update_event event2 (st1\<lparr>metrics := m\<rparr>))
               (processed_ids @ [ev_id event2]) failed_ids
      | (Inl e, st1, event1) \<Rightarrow>
          (case mark_failed now (metrics st1) event1 (str_exc e) of
             (event2, m) \<Rightarrow>
               retry_loop lib now events (update_event event2 (st1\<lparr>metrics := m\<rparr>))
                 processed_ids (failed_ids @ [ev_id event2])))"

text \<open>The summary is the triple \<open>(checked, processed_ids, failed_ids)\<close>.\<close>

definition retry_failed_webhooks ::
  "pylib \<Rightarrow> datetime \<Rightarrow> state \<Rightarrow> nat \<Rightarrow> (nat \<times> nat list \<times> nat list) \<times> state" where
  "retry_failed_webhooks lib now st limit =
     (let events = retry_candidates now limit st
      in case retry_loop lib now events st [] [] of
           (st1, processed_ids, failed_ids) \<Rightarrow> ((length events, processed_ids, failed_ids), st1))"

definition reprocess_webhook_event ::
  "pylib \<Rightarrow> datetime \<Rightarrow> state \<Rightarrow> string \<Rightarrow> (error + WebhookEvent) \<times> state" where
  "reprocess_webhook_event lib now st eid =
     (case get_webhook_event st eid None of
        Inl e \<Rightarrow> (Inl e, st)
      | Inr webhook_event \<Rightarrow>
          (case dispatch_event lib now st webhook_event of
             (Inr u, st1, event1) \<Rightarrow>
               let m = count_dispatched event1 (metrics st1);
                   event2 = event1\<lparr>next_retry_at := None, needs_attention := False, error_message := None\<rparr>
               in (Inr event2, update_event event2 (st1\<lparr>metrics := m\<rparr>))
           | (Inl e, st1, event1) \<Rightarrow>
               (case mark_failed now (metrics st1) event1 (str_exc e) of
                  (event2, m) \<Rightarrow> (Inr event2, update_event event2 (st1\<lparr>metrics := m\<rparr>)))))"

section \<open>Sweeps and the cancel flag (services.py)\<close>

text \<open>
  The loop of a sweep assigns the attributes of each selected object in place; the rows
  the query did not select are left as they are. The summary is the list of ids.
\<close>

definition grace_selected :: "datetime \<Rightarrow> Subscription \<Rightarrow> bool" where
  "grace_selected now subscription =
     (sub_status subscription = past_due \<and>
      (case past_due_since subscription of
         None \<Rightarrow> False
       | Some t \<Rightarrow> \<not> (t > now - timedelta_days 1)))"

definition enforce_grace_period :: "datetime \<Rightarrow> state \<Rightarrow> nat list \<times> state" where
  "enforce_grace_period now st =
     (map sub_id (filter (grace_selected now) (subscriptions st)),
      st\<lparr>subscriptions :=
           map (\<lambda>subscription.
                  if grace_selected now subscription
                  then subscription\<lparr>sub_status := canceled, canceled_at := Some now,
                         access_revoked := True, updated_at := now\<rparr>
                  else subscription)
               (subscriptions st)\<rparr>)"

definition expire_selected :: "datetime \<Rightarrow> Subscription \<Rightarrow> bool" where
  "expire_selected now subscription =
     (sub_status subscription = active \<and> current_period_end subscription \<le> now)"

definition expire_subscriptions :: "datetime \<Rightarrow> state \<Rightarrow> (nat list \<times> nat list) \<times> state" where
  "expire_subscriptions now st =
     ((map sub_id (filter (\<lambda>s. expire_selected now s \<and> \<not> cancel_at_period_end s) (subscriptions st)),
       map sub_id (filter (\<lambda>s. expire_selected now s \<and> cancel_at_period_end s) (subscriptions st))),
      st\<lparr>subscriptions :=
           map (\<lambda>subscription.
                  if expire_selected now subscription
                  then (if cancel_at_period_end subscription
                        then subscription\<lparr>sub_status := canceled, canceled_at := Some now,
                               access_revoked := True\<rparr>
                        else subscription\<lparr>sub_status := expired, expired_at := Some now\<rparr>)
                       \<lparr>updated_at := now\<rparr>
                  else subscription)
               (subscriptions st)\<rparr>)"

definition set_subscription_cancel_at_period_end ::
  "datetime \<Rightarrow> state \<Rightarrow> nat \<Rightarrow> bool \<Rightarrow> (error + Subscription) \<times> state" where
  "set_subscription_cancel_at_period_end now st subscription_id flag =
     (case find (\<lambda>s. sub_id s = subscription_id) (subscriptions st) of
        None \<Rightarrow> (Inl (NotFoundError (''Subscription '' @ quoted (str_nat subscription_id) @ '' not found'')), st)
      | Some subscription \<Rightarrow>
          let subscription1 = subscription\<lparr>cancel_at_period_end := flag, updated_at := now\<rparr>
          in (Inr subscription1, update_subscription subscription1 st))"

section \<open>Histories\<close>

text \<open>
  The operations that change the store, with the arguments the endpoints of api.py pass
  to the service functions and the clock reading (and uuid texts) of the call.
\<close>

datatype operation =
    CreateSubscription datetime string string SubscriptionCreateIn
  | ProcessWebhook datetime string WebhookEventIn VerifiedWebhookData
  | RetryFailedWebhooks datetime nat
  | ReprocessWebhookEvent datetime string
  | EnforceGracePeriod datetime
  | ExpireSubscriptions datetime
  | SetCancelAtPeriodEnd datetime nat bool

fun apply_operation :: "pylib \<Rightarrow> state \<Rightarrow> operation \<Rightarrow> state" where
  "apply_operation lib st (CreateSubscription now hex1 hex2 subscription_in) =
     snd (create_subscription now hex1 hex2 st subscription_in)"
| "apply_operation lib st (ProcessWebhook now provider webhook verified) =
     snd (process_webhook lib now st provider webhook verified)"
| "apply_operation lib st (RetryFailedWebhooks now limit) =
     snd (retry_failed_webhooks lib now st limit)"
| "apply_operation lib st (ReprocessWebhookEvent now eid) =
     snd (reprocess_webhook_event lib now st eid)"
| "apply_operation lib st (EnforceGracePeriod now) = snd (enforce_grace_period now st)"
| "apply_operation lib st (ExpireSubscriptions now) = snd (expire_subscriptions now st)"
| "apply_operation lib st (SetCancelAtPeriodEnd now subscription_id flag) =
     snd (set_subscription_cancel_at_period_end now st subscription_id flag)"

definition run :: "pylib \<Rightarrow> state \<Rightarrow> operation list \<Rightarrow> state" where
  "run lib st ops = foldl (apply_operation lib) st ops"

definition empty_store :: state where
  "empty_store =
     \<lparr>customers = [], subscriptions = [], payments = [], webhook_events = [],
      metrics = \<lparr>webhook_processed = 0, webhook_failed = 0, webhook_ignored = 0,
                 webhook_replayed = 0\<rparr>\<rparr>"

section \<open>Secret registry (api.py)\<close>

definition DEFAULT_WEBHOOK_SECRETS :: "(string \<times> json) list" where
  "DEFAULT_WEBHOOK_SECRETS =
     [(''stripe'', JStr ''stripe_secret_here''),
      (''mercadopago'', JStr ''mp_secret_here''),
      (''test'', JStr ''test_secret'')]"

text \<open>\<open>raw\<close> is what \<open>os.getenv("WEBHOOK_SECRETS_JSON")\<close> returns. The keys of a JSON
  object are strings, on which \<open>str\<close> is the identity.\<close>

definition load_webhook_secrets :: "pylib \<Rightarrow> string option \<Rightarrow> error + (string \<times> json) list" where
  "load_webhook_secrets lib raw =
     (case raw of
        None \<Rightarrow> Inr DEFAULT_WEBHOOK_SECRETS
      | Some r \<Rightarrow>
          if r = [] then Inr DEFAULT_WEBHOOK_SECRETS
          else
            (case json_loads lib r of
               Inl (JSONDecodeError m) \<Rightarrow> Inl (RuntimeError ''Invalid WEBHOOK_SECRETS_JSON'')
             | Inl e \<Rightarrow> Inl e
             | Inr (JObj loaded) \<Rightarrow> Inr (map (\<lambda>(k, v). (k, JStr (py_str lib v))) loaded)
             | Inr _ \<Rightarrow> Inl (RuntimeError ''WEBHOOK_SECRETS_JSON must be a JSON object'')))"

text \<open>The loop that keeps the first occurrence of each secret.\<close>

fun dedupe :: "string list \<Rightarrow> string list \<Rightarrow> string list" where
  "dedupe seen [] = []"
| "dedupe seen (secret # candidates) =
     (if secret \<in> set seen then dedupe seen candidates
      else secret # dedupe (secret # seen) candidates)"

definition get_secret_candidates :: "(string \<times> json) list \<Rightarrow> string \<Rightarrow> string option \<Rightarrow> string list" where
  "get_secret_candidates WEBHOOK_SECRETS provider key_id =
     (case map_of WEBHOOK_SECRETS provider of
        None \<Rightarrow> []
      | Some JNull \<Rightarrow> []
      | Some (JStr secret) \<Rightarrow> [secret]
      | Some (JObj provider_cfg) \<Rightarrow>
          let from_key =
                (case key_id of
                   None \<Rightarrow> []
                 | Some k \<Rightarrow>
                     if k = [] then []
                     else (case map_of provider_cfg ''keys'' of
                             Some (JObj key_map) \<Rightarrow>
                               (case map_of key_map k of Some (JStr maybe) \<Rightarrow> [maybe] | _ \<Rightarrow> [])
                           | _ \<Rightarrow> []));
              from_current =
                (case map_of provider_cfg ''current'' of Some (JStr current_secret) \<Rightarrow> [current_secret] | _ \<Rightarrow> []);
              from_previous =
                (case map_of provider_cfg ''previous'' of
                   None \<Rightarrow> []
                 | Some (JArr previous_secrets) \<Rightarrow>
                     concat (map (\<lambda>s. case s of JStr t \<Rightarrow> [t] | _ \<Rightarrow> []) previous_secrets)
                 | Some _ \<Rightarrow> [])
          in dedupe [] (from_key @ from_current @ from_previous)
      | Some _ \<Rightarrow> [])"

section \<open>A sample library and sample deliveries\<close>

text \<open>
  An instance of the library parameters, for running the model on concrete inputs:
  \<open>json.loads\<close> is a table for the bodies used below, the payload validation reads the
  declared fields, an integer epoch is converted to microseconds, and an INTEGER column
  takes the signed 64-bit integers.
\<close>

definition sample_validate :: "(string \<times> json) list \<Rightarrow> error + Payload" where
  "sample_validate d =
     (case (map_of d ''provider_customer_id'', map_of d ''provider_subscription_id'') of
        (Some (JStr c), Some (JStr s)) \<Rightarrow>
          Inr \<lparr>p_provider_customer_id = c, p_provider_subscription_id = s,
               p_amount = (case map_of d ''amount'' of Some (JNum (PyInt a)) \<Rightarrow> a | _ \<Rightarrow> 0),
               p_currency = (case map_of d ''currency'' of Some (JStr t) \<Rightarrow> t | _ \<Rightarrow> ''USD''),
               p_current_period_end =
                 (case map_of d ''current_period_end'' of
                    Some (JStr t) \<Rightarrow> PeriodStr t | Some (JNum n) \<Rightarrow> PeriodNum n | _ \<Rightarrow> PeriodNone),
               p_payment_id = (case map_of d ''payment_id'' of Some (JStr t) \<Rightarrow> Some t | _ \<Rightarrow> None),
               p_invoice_id = (case map_of d ''invoice_id'' of Some (JStr t) \<Rightarrow> Some t | _ \<Rightarrow> None)\<rparr>
      | _ \<Rightarrow> Inl (PyException ''validation error''))"

text \<open>The payload of a payment event for the sample subscription, with the period end
  in epoch seconds.\<close>

definition sample_payload :: "int \<Rightarrow> (string \<times> json) list" where
  "sample_payload period_end =
     [(''provider_customer_id'', JStr ''cus_0123456789abcdef''),
      (''provider_subscription_id'', JStr ''sub_fedcba9876543210''),
      (''amount'', JNum (PyInt 5000)),
      (''currency'', JStr ''BRL''),
      (''current_period_end'', JNum (PyInt period_end)),
      (''payment_id'', JStr ''pay_ok'')]"

text \<open>A payload that names a subscription the store does not have, and a payload whose
  amount is \<open>2 ^ 63\<close>.\<close>

definition orphan_payload :: "(string \<times> json) list" where
  "orphan_payload =
     [(''provider_customer_id'', JStr ''cus_0123456789abcdef''),
      (''provider_subscription_id'', JStr ''sub_unknown''),
      (''amount'', JNum (PyInt 5000)),
      (''currency'', JStr ''BRL''),
      (''current_period_end'', JNum (PyInt 1702592000)),
      (''payment_id'', JStr ''pay_orphan'')]"

definition huge_payload :: "(string \<times> json) list" where
  "huge_payload =
     [(''provider_customer_id'', JStr ''cus_0123456789abcdef''),
      (''provider_subscription_id'', JStr ''sub_fedcba9876543210''),
      (''amount'', JNum (PyInt 9223372036854775808)),
      (''currency'', JStr ''BRL''),
      (''current_period_end'', JNum (PyInt 1705270400)),
      (''payment_id'', JStr ''pay_huge'')]"

definition sample_body :: "string \<Rightarrow> string \<Rightarrow> int \<Rightarrow> json" where
  "sample_body eid etype period_end =
     JObj [(''event_id'', JStr eid), (''event_type'', JStr etype),
           (''payload_json'', JObj (sample_payload period_end))]"

definition sample_json_loads :: "string \<Rightarrow> error + json" where
  "sample_json_loads raw =
     (if raw = ''body_pay_1'' then Inr (sample_body ''evt_pay_1'' ''payment.succeeded'' 1702592000)
      else if raw = ''body_fail_1'' then Inr (sample_body ''evt_fail_1'' ''invoice.payment_failed'' 1702592000)
      else if raw = ''body_pay_2'' then Inr (sample_body ''evt_pay_2'' ''payment.succeeded'' 1705270400)
      else if raw = ''body_stale'' then Inr (sample_body ''evt_stale'' ''payment.succeeded'' 1600000000)
      else if raw = ''body_orphan'' then
        Inr (JObj [(''event_id'', JStr ''evt_orphan''), (''event_type'', JStr ''payment.succeeded''),
                   (''payload_json'', JObj orphan_payload)])
      else if raw = ''body_huge'' then
        Inr (JObj [(''event_id'', JStr ''evt_huge''), (''event_type'', JStr ''payment.succeeded''),
                   (''payload_json'', JObj huge_payload)])
      else if raw = ''secrets'' then
        Inr (JObj [(''stripe'', JObj [(''current'', JStr ''new''), (''previous'', JArr [JStr ''old''])]),
                   (''test'', JStr ''test_secret'')])
      else Inl (JSONDecodeError ''Expecting value''))"

definition sample_str :: "json \<Rightarrow> string" where
  "sample_str v = (case v of JStr s \<Rightarrow> s | JObj kvs \<Rightarrow> ''{...}'' | _ \<Rightarrow> ''repr'')"

definition sample_lib :: pylib where
  "sample_lib =
     \<lparr>json_loads = sample_json_loads,
      model_validate = sample_validate,
      fromisoformat = (\<lambda>s. Inl (PyException ''Invalid isoformat string'')),
      utcfromtimestamp = (\<lambda>n. case n of PyInt k \<Rightarrow> Inr (k * 1000000)
                                | PyFloat x \<Rightarrow> Inl (PyException ''float epoch'')),
      py_str = sample_str,
      bind_integer = (\<lambda>n. if - 9223372036854775808 \<le> n \<and> n \<le> 9223372036854775807 then None
                          else Some (PyException ''Python int too large to convert to SQLite INTEGER'')),
      pending_rollback = (\<lambda>e. PyException (''PendingRollbackError: '' @ str_exc e))\<rparr>"

definition sample_webhook :: "string \<Rightarrow> string \<Rightarrow> int \<Rightarrow> WebhookEventIn" where
  "sample_webhook eid etype period_end =
     \<lparr>w_event_id = eid, w_event_type = etype, w_payload_json = sample_payload period_end\<rparr>"

definition sample_verified :: "string \<Rightarrow> string \<Rightarrow> int \<Rightarrow> VerifiedWebhookData" where
  "sample_verified body sig ts = \<lparr>raw_body = body, v_signature = sig, v_timestamp = ts\<rparr>"

text \<open>The subscription of the samples is created at second 1700000000.\<close>

definition op_create :: operation where
  "op_create =
     CreateSubscription 1700000000000000 ''0123456789abcdef0123456789abcdef''
       ''fedcba98765432100123456789abcdef''
       \<lparr>in_customer_id = None, in_customer_email = Some ''x@y.com'', in_plan_id = 1\<rparr>"

definition op_pay_1 :: operation where
  "op_pay_1 =
     ProcessWebhook 1700000100000000 ''test''
       (sample_webhook ''evt_pay_1'' ''payment.succeeded'' 1702592000)
       (sample_verified ''body_pay_1'' ''sig_pay_1'' 1700000100)"

definition op_fail_1 :: operation where
  "op_fail_1 =
     ProcessWebhook 1700000200000000 ''test''
       (sample_webhook ''evt_fail_1'' ''invoice.payment_failed'' 1702592000)
       (sample_verified ''body_fail_1'' ''sig_fail_1'' 1700000200)"

definition op_grace :: operation where
  "op_grace = EnforceGracePeriod 1700200000000000"

definition op_pay_2 :: operation where
  "op_pay_2 =
     ProcessWebhook 1700200100000000 ''test''
       (sample_webhook ''evt_pay_2'' ''payment.succeeded'' 1705270400)
       (sample_verified ''body_pay_2'' ''sig_pay_2'' 1700200100)"

definition op_stale :: operation where
  "op_stale =
     ProcessWebhook 1700000300000000 ''test''
       (sample_webhook ''evt_stale'' ''payment.succeeded'' 1600000000)
       (sample_verified ''body_stale'' ''sig_stale'' 1700000300)"

text \<open>A second delivery of \<open>evt_pay_1\<close> that presents another timestamp.\<close>

definition op_replay_1 :: "datetime \<Rightarrow> operation" where
  "op_replay_1 now =
     ProcessWebhook now ''test''
       (sample_webhook ''evt_pay_1'' ''payment.succeeded'' 1702592000)
       (sample_verified ''body_pay_1'' ''sig_other'' 1700000150)"

text \<open>An event whose stored body is not JSON.\<close>

definition bad_event :: WebhookEvent where
  "bad_event =
     \<lparr>ev_id = 1, ev_provider = ''test'', event_id = ''evt_bad'', event_type = ''payment.succeeded'',
      payload_raw = ''not json'', signature = ''sig_bad'', signature_timestamp = 1700000000,
      received_at = 1700000000000000, processed_at = None, attempt_count = 1,
      next_retry_at = None, needs_attention = False, processing_status = received,
      error_message = None\<rparr>"

text \<open>The customer and the subscription of the samples once \<open>evt_pay_1\<close> is applied, and
  a stale event as its first delivery inserts it.\<close>

definition sample_customer :: Customer where
  "sample_customer =
     \<lparr>cus_id = 1, cus_provider_customer_id = Some ''cus_0123456789abcdef'',
      cus_email = ''x@y.com'', cus_status = Some ''active'', cus_created_at = 1700000000000000\<rparr>"

definition sample_subscription :: Subscription where
  "sample_subscription =
     \<lparr>sub_id = 1, sub_customer_id = 1, sub_plan_id = 1, sub_status = active,
      current_period_end = 1702592000000000, cancel_at_period_end = False,
      past_due_since = None, canceled_at = None, expired_at = None,
      provider_subscription_id = ''sub_fedcba9876543210'', access_revoked = False,
      sub_created_at = 1700000000000000, updated_at = 1700000100000000\<rparr>"

definition stale_event :: WebhookEvent where
  "stale_event =
     \<lparr>ev_id = 2, ev_provider = ''test'', event_id = ''evt_stale'', event_type = ''payment.succeeded'',
      payload_raw = ''body_stale'', signature = ''sig_stale'', signature_timestamp = 1700000300,
      received_at = 1700000300000000, processed_at = None, attempt_count = 1,
      next_retry_at = None, needs_attention = False, processing_status = received,
      error_message = None\<rparr>"

text \<open>The event \<open>evt_pay_1\<close> as its first delivery stores it, and a first delivery whose
  payload names a subscription the store does not have.\<close>

definition pay_1_event :: WebhookEvent where
  "pay_1_event =
     \<lparr>ev_id = 1, ev_provider = ''test'', event_id = ''evt_pay_1'', event_type = ''payment.succeeded'',
      payload_raw = ''body_pay_1'', signature = ''sig_pay_1'', signature_timestamp = 1700000100,
      received_at = 1700000100000000, processed_at = Some 1700000100000000, attempt_count = 1,
      next_retry_at = None, needs_attention = False, processing_status = processed,
      error_message = None\<rparr>"

definition orphan_webhook :: WebhookEventIn where
  "orphan_webhook =
     \<lparr>w_event_id = ''evt_orphan'', w_event_type = ''payment.succeeded'',
      w_payload_json = orphan_payload\<rparr>"

text \<open>A first delivery whose payload carries the amount \<open>2 ^ 63\<close>.\<close>

definition op_huge :: operation where
  "op_huge =
     ProcessWebhook 1700200100000000 ''test''
       \<lparr>w_event_id = ''evt_huge'', w_event_type = ''payment.succeeded'',
        w_payload_json = huge_payload\<rparr>
       (sample_verified ''body_huge'' ''sig_huge'' 1700200100)"

section \<open>Properties of rows and stores\<close>

text \<open>The flag \<open>needs_attention\<close> is set exactly on the failed events that have been
  attempted three times.\<close>

definition attention_ok :: "WebhookEvent \<Rightarrow> bool" where
  "attention_ok e = (needs_attention e \<longleftrightarrow> processing_status e = failed \<and> 3 \<le> attempt_count e)"

definition attention_inv :: "state \<Rightarrow> bool" where
  "attention_inv st = (\<forall>e\<in>set (webhook_events st). attention_ok e)"

text \<open>
  The subscription table \<open>ys\<close> continues the table \<open>xs\<close>: every row of \<open>xs\<close> is still
  there, at its position and under its primary key, and its \<open>current_period_end\<close> is not
  earlier than it was.
\<close>

definition period_end_monotone :: "Subscription list \<Rightarrow> Subscription list \<Rightarrow> bool" where
  "period_end_monotone xs ys =
     (length xs \<le> length ys \<and>
      (\<forall>i<length xs. sub_id (ys ! i) = sub_id (xs ! i) \<and>
                      current_period_end (xs ! i) \<le> current_period_end (ys ! i)))"

text \<open>The primary keys of the subscription table are distinct.\<close>

definition keys_distinct :: "state \<Rightarrow> bool" where
  "keys_distinct st = distinct (map sub_id (subscriptions st))"

text \<open>A step of a history: the keys stay distinct and the table continues the one before.\<close>

definition continues :: "state \<Rightarrow> state \<Rightarrow> bool" where
  "continues st st' = (keys_distinct st' \<and> period_end_monotone (subscriptions st) (subscriptions st'))"

text \<open>The same delivery presented again and again, at the clock readings given: the
  results of the calls and the store after the last.\<close>

fun deliver_all ::
  "pylib \<Rightarrow> string \<Rightarrow> WebhookEventIn \<Rightarrow> VerifiedWebhookData \<Rightarrow> state \<Rightarrow> datetime list
     \<Rightarrow> (error + WebhookEvent) list \<times> state" where
  "deliver_all lib provider webhook verified st [] = ([], st)"
| "deliver_all lib provider webhook verified st (now # nows) =
     (case process_webhook lib now st provider webhook verified of
        (r, st1) \<Rightarrow>
          (case deliver_all lib provider webhook verified st1 nows of
             (rs, st2) \<Rightarrow> (r # rs, st2)))"

section \<open>What a raising dispatch leaves behind\<close>

lemma handle_payment_succeeded_raise:
  "handle_payment_succeeded lib now st event pd = (Inl e, st1, event1) \<Longrightarrow> st1 = st \<and> event1 = event"
  unfolding handle_payment_succeeded_def
  by (auto split: sum.splits if_splits simp: Let_def)

lemma handle_invoice_payment_failed_raise:
  "handle_invoice_payment_failed lib now st event pd = (Inl e, st1, event1) \<Longrightarrow> st1 = st \<and> event1 = event"
  unfolding handle_invoice_payment_failed_def
  by (auto split: sum.splits if_splits simp: Let_def)

lemma EVENT_HANDLERS_cases:
  "EVENT_HANDLERS t = Some h \<Longrightarrow> h = handle_payment_succeeded \<or> h = handle_invoice_payment_failed"
  by (auto simp: EVENT_HANDLERS_def split: if_splits)

lemma handler_raise:
  "EVENT_HANDLERS t = Some h \<Longrightarrow> h lib now st event pd = (Inl e, st1, event1) \<Longrightarrow> st1 = st \<and> event1 = event"
  using EVENT_HANDLERS_cases handle_payment_succeeded_raise handle_invoice_payment_failed_raise
  by blast

lemma dispatch_event_raise:
  "dispatch_event lib now st event = (Inl e, st1, event1) \<Longrightarrow> st1 = st \<and> event1 = event"
  unfolding dispatch_event_def
  by (auto split: sum.splits json.splits option.splits prod.splits dest: handler_raise)

section \<open>Failure marking and backoff\<close>

lemma mark_failed_eq:
  "mark_failed now m event message =
     (event\<lparr>attempt_count := attempt_count event + 1,
            next_retry_at := Some (now + timedelta_seconds (min (300 * (attempt_count event + 1)) 3600)),
            needs_attention := (3 \<le> attempt_count event + 1),
            processing_status := failed, processed_at := Some now,
            error_message := Some message\<rparr>,
      m\<lparr>webhook_failed := webhook_failed m + 1\<rparr>)"
  by (simp add: mark_failed_def Let_def)

text \<open>
  C6. Every caller of \<open>dispatch_event\<close> answers an exception \<open>e\<close> with
  \<open>_mark_failed(event, str(e))\<close> on the event object the dispatch leaves. The marked event
  is the stored event with exactly six fields rewritten: \<open>attempt_count\<close> is one more,
  \<open>next_retry_at\<close> is \<open>now\<close> plus \<open>min(300 * attempt_count, 3600)\<close> seconds for the
  incremented count, \<open>needs_attention\<close> says whether the incremented count is at least 3,
  \<open>processing_status\<close> is \<open>failed\<close>, \<open>processed_at\<close> is \<open>now\<close> and \<open>error_message\<close> is the
  text of the exception.
\<close>

theorem failure_marking_exact:
  assumes "dispatch_event lib now st event = (Inl e, st1, event1)"
    and "mark_failed now (metrics st1) event1 (str_exc e) = (event2, m)"
  shows "event2 = event\<lparr>attempt_count := attempt_count event + 1,
            next_retry_at := Some (now + timedelta_seconds (min (300 * (attempt_count event + 1)) 3600)),
            needs_attention := (3 \<le> attempt_count event + 1),
            processing_status := failed, processed_at := Some now,
            error_message := Some (str_exc e)\<rparr>"
proof -
  from assms(1) have "event1 = event" by (rule dispatch_event_raise [THEN conjunct2])
  with assms(2) show ?thesis by (simp add: mark_failed_eq)
qed

lemma bad_event_dispatch:
  "dispatch_event sample_lib 1700000000000000 empty_store bad_event =
     (Inl (JSONDecodeError ''Expecting value''), empty_store, bad_event)"
  by (simp add: dispatch_event_def sample_lib_def sample_json_loads_def bad_event_def)

theorem failure_marking_exact_witness:
  "dispatch_event sample_lib 1700000000000000 empty_store bad_event =
     (Inl (JSONDecodeError ''Expecting value''), empty_store, bad_event) \<and>
   fst (mark_failed 1700000000000000 (metrics empty_store) bad_event ''Expecting value'') =
     bad_event\<lparr>attempt_count := 2, next_retry_at := Some 1700000600000000,
       needs_attention := False, processing_status := failed,
       processed_at := Some 1700000000000000, error_message := Some ''Expecting value''\<rparr>"
proof -
  have "mark_failed 1700000000000000 (metrics empty_store) bad_event (str_exc (JSONDecodeError ''Expecting value'')) =
          (fst (mark_failed 1700000000000000 (metrics empty_store) bad_event ''Expecting value''),
           snd (mark_failed 1700000000000000 (metrics empty_store) bad_event ''Expecting value''))"
    by simp
  from failure_marking_exact [OF bad_event_dispatch this] bad_event_dispatch
  show ?thesis by (simp add: bad_event_def timedelta_seconds_def)
qed

lemma stale_handler_sets_ignored:
  assumes "h = handle_payment_succeeded \<or> h = handle_invoice_payment_failed"
      and "model_validate lib payload_data = Inr payload"
      and "get_customer_by_provider_id st (p_provider_customer_id payload) = Inr customer"
      and "parse_period_end lib now (p_current_period_end payload) = Inr period_end"
      and "get_subscription_by_provider_id st (p_provider_subscription_id payload) (cus_id customer) = Inr subscription"
      and "period_end < current_period_end subscription"
  shows "h lib now st event payload_data =
           (Inr (), st, event\<lparr>processing_status := ignored, processed_at := Some now,
                               error_message := Some ''stale event ignored''\<rparr>)"
  using assms by (auto simp: handle_payment_succeeded_def handle_invoice_payment_failed_def)

section \<open>Stale events\<close>

text \<open>
  C1. What the code does with a stale \<open>payment.succeeded\<close> or \<open>invoice.payment_failed\<close>
  event (the parsed period end is strictly earlier than the stored one): the handler sets
  the status \<open>ignored\<close> and the message and returns, and \<open>dispatch_event\<close> then assigns
  \<open>processed\<close>. The dispatch leaves the store unchanged (no subscription change, no
  payment row) and the message \<open>stale event ignored\<close> in place, but the event ends the
  dispatch with status \<open>processed\<close>, not \<open>ignored\<close>.
\<close>

theorem stale_event_ends_processed:
  assumes "json_loads lib (payload_raw event) = Inr (JObj kvs)"
      and "(case map_of kvs ''payload_json'' of None \<Rightarrow> JObj kvs | Some v \<Rightarrow> v) = JObj payload_data"
      and "event_type event = ''payment.succeeded'' \<or> event_type event = ''invoice.payment_failed''"
      and "model_validate lib payload_data = Inr payload"
      and "get_customer_by_provider_id st (p_provider_customer_id payload) = Inr customer"
      and "parse_period_end lib now (p_current_period_end payload) = Inr period_end"
      and "get_subscription_by_provider_id st (p_provider_subscription_id payload) (cus_id customer) = Inr subscription"
      and "period_end < current_period_end subscription"
  shows "dispatch_event lib now st event =
           (Inr (), st, event\<lparr>processing_status := processed, processed_at := Some now,
                               error_message := Some ''stale event ignored''\<rparr>)"
proof -
  from assms(3) obtain h where h: "EVENT_HANDLERS (event_type event) = Some h"
      "h = handle_payment_succeeded \<or> h = handle_invoice_payment_failed"
    by (auto simp: EVENT_HANDLERS_def)
  have "h lib now st event payload_data =
           (Inr (), st, event\<lparr>processing_status := ignored, processed_at := Some now,
                               error_message := Some ''stale event ignored''\<rparr>)"
    by (rule stale_handler_sets_ignored [OF h(2) assms(4-8)])
  with assms(1,2) h(1) show ?thesis
    by (simp add: dispatch_event_def)
qed

theorem stale_event_ends_processed_witness:
  "dispatch_event sample_lib 1700000300000000
     (run sample_lib empty_store [op_create, op_pay_1]) stale_event =
     (Inr (), run sample_lib empty_store [op_create, op_pay_1],
      stale_event\<lparr>processing_status := processed, processed_at := Some 1700000300000000,
                  error_message := Some ''stale event ignored''\<rparr>) \<and>
   map processing_status (webhook_events (run sample_lib empty_store [op_create, op_pay_1, op_stale]))
     = [processed, processed] \<and>
   map error_message (webhook_events (run sample_lib empty_store [op_create, op_pay_1, op_stale]))
     = [None, Some ''stale event ignored''] \<and>
   subscriptions (run sample_lib empty_store [op_create, op_pay_1, op_stale])
     = subscriptions (run sample_lib empty_store [op_create, op_pay_1]) \<and>
   payments (run sample_lib empty_store [op_create, op_pay_1, op_stale])
     = payments (run sample_lib empty_store [op_create, op_pay_1])"
proof -
  let ?st = "run sample_lib empty_store [op_create, op_pay_1]"
  have h1: "json_loads sample_lib (payload_raw stale_event) =
              Inr (JObj [(''event_id'', JStr ''evt_stale''), (''event_type'', JStr ''payment.succeeded''),
                         (''payload_json'', JObj (sample_payload 1600000000))])"
    by code_simp
  have h2: "(case map_of [(''event_id'', JStr ''evt_stale''), (''event_type'', JStr ''payment.succeeded''),
                         (''payload_json'', JObj (sample_payload 1600000000))] ''payload_json'' of
               None \<Rightarrow> JObj [(''event_id'', JStr ''evt_stale''), (''event_type'', JStr ''payment.succeeded''),
                         (''payload_json'', JObj (sample_payload 1600000000))]
             | Some v \<Rightarrow> v) = JObj (sample_payload 1600000000)"
    by simp
  have h3: "event_type stale_event = ''payment.succeeded'' \<or> event_type stale_event = ''invoice.payment_failed''"
    by (simp add: stale_event_def)
  have h4: "model_validate sample_lib (sample_payload 1600000000) =
              Inr \<lparr>p_provider_customer_id = ''cus_0123456789abcdef'',
                   p_provider_subscription_id = ''sub_fedcba9876543210'', p_amount = 5000,
                   p_currency = ''BRL'', p_current_period_end = PeriodNum (PyInt 1600000000),
                   p_payment_id = Some ''pay_ok'', p_invoice_id = None\<rparr>"
    by code_simp
  have h5: "get_customer_by_provider_id ?st
              (p_provider_customer_id \<lparr>p_provider_customer_id = ''cus_0123456789abcdef'',
                   p_provider_subscription_id = ''sub_fedcba9876543210'', p_amount = 5000,
                   p_currency = ''BRL'', p_current_period_end = PeriodNum (PyInt 1600000000),
                   p_payment_id = Some ''pay_ok'', p_invoice_id = None\<rparr>) = Inr sample_customer"
    by code_simp
  have h6: "parse_period_end sample_lib 1700000300000000
              (p_current_period_end \<lparr>p_provider_customer_id = ''cus_0123456789abcdef'',
                   p_provider_subscription_id = ''sub_fedcba9876543210'', p_amount = 5000,
                   p_currency = ''BRL'', p_current_period_end = PeriodNum (PyInt 1600000000),
                   p_payment_id = Some ''pay_ok'', p_invoice_id = None\<rparr>) = Inr 1600000000000000"
    by code_simp
  have h7: "get_subscription_by_provider_id ?st
              (p_provider_subscription_id \<lparr>p_provider_customer_id = ''cus_0123456789abcdef'',
                   p_provider_subscription_id = ''sub_fedcba9876543210'', p_amount = 5000,
                   p_currency = ''BRL'', p_current_period_end = PeriodNum (PyInt 1600000000),
                   p_payment_id = Some ''pay_ok'', p_invoice_id = None\<rparr>) (cus_id sample_customer)
              = Inr sample_subscription"
    by code_simp
  have h8: "1600000000000000 < current_period_end sample_subscription"
    by (simp add: sample_subscription_def)
  have a: "map processing_status (webhook_events (run sample_lib empty_store [op_create, op_pay_1, op_stale]))
     = [processed, processed]" by code_simp
  have b: "map error_message (webhook_events (run sample_lib empty_store [op_create, op_pay_1, op_stale]))
     = [None, Some ''stale event ignored'']" by code_simp
  have c: "subscriptions (run sample_lib empty_store [op_create, op_pay_1, op_stale])
     = subscriptions (run sample_lib empty_store [op_create, op_pay_1])" by code_simp
  have d: "payments (run sample_lib empty_store [op_create, op_pay_1, op_stale])
     = payments (run sample_lib empty_store [op_create, op_pay_1])" by code_simp
  from stale_event_ends_processed [OF h1 h2 h3 h4 h5 h6 h7 h8] a b c d
  show ?thesis by simp
qed

section \<open>Canceled subscriptions\<close>

text \<open>
  C2. A history that breaks the invariant: the sample subscription is activated by a
  payment, goes \<open>past_due\<close> on a failed invoice and is canceled by the grace sweep (with
  \<open>canceled_at\<close> set and \<open>access_revoked\<close> true); a later \<open>payment.succeeded\<close> that is
  not stale is then processed and committed with the status still \<open>canceled\<close>, while
  \<open>canceled_at\<close> is cleared and \<open>access_revoked\<close> is false.
\<close>

theorem canceled_subscription_loses_revocation:
  "map sub_status (subscriptions (run sample_lib empty_store [op_create, op_pay_1, op_fail_1, op_grace])) = [canceled] \<and>
   map canceled_at (subscriptions (run sample_lib empty_store [op_create, op_pay_1, op_fail_1, op_grace])) = [Some 1700200000000000] \<and>
   map access_revoked (subscriptions (run sample_lib empty_store [op_create, op_pay_1, op_fail_1, op_grace])) = [True] \<and>
   map sub_status (subscriptions (run sample_lib empty_store [op_create, op_pay_1, op_fail_1, op_grace, op_pay_2])) = [canceled] \<and>
   map canceled_at (subscriptions (run sample_lib empty_store [op_create, op_pay_1, op_fail_1, op_grace, op_pay_2])) = [None] \<and>
   map access_revoked (subscriptions (run sample_lib empty_store [op_create, op_pay_1, op_fail_1, op_grace, op_pay_2])) = [False] \<and>
   map processing_status (webhook_events (run sample_lib empty_store [op_create, op_pay_1, op_fail_1, op_grace, op_pay_2])) = [processed, processed, processed]"
  by code_simp

section \<open>First deliveries that fail\<close>

lemma fold_max_ge: "a \<le> fold max ids (a::nat)"
proof (induction ids arbitrary: a)
  case Nil
  show ?case by simp
next
  case (Cons x xs)
  have "a \<le> max x a" by simp
  also have "max x a \<le> fold max xs (max x a)" by (rule Cons.IH)
  finally show ?case by simp
qed

lemma fold_max_mem: "x \<in> set ids \<Longrightarrow> x \<le> fold max ids (a::nat)"
proof (induction ids arbitrary: a)
  case Nil
  then show ?case by simp
next
  case (Cons y ys)
  show ?case
  proof (cases "x = y")
    case True
    have "x \<le> max y a" using True by simp
    also have "max y a \<le> fold max ys (max y a)" by (rule fold_max_ge)
    finally show ?thesis by simp
  next
    case False
    with Cons.prems have "x \<in> set ys" by simp
    then show ?thesis using Cons.IH by simp
  qed
qed

lemma next_id_fresh: "x \<in> set ids \<Longrightarrow> x < next_id ids"
  unfolding next_id_def using fold_max_mem [of x ids 0] by simp

lemma find_SomeD: "find P xs = Some x \<Longrightarrow> x \<in> set xs \<and> P x"
  by (induction xs) (auto split: if_splits)

lemma update_event_fresh:
  assumes "ev_id e = next_id (map ev_id (webhook_events st))" and "ev_id e' = ev_id e"
  shows "webhook_events (update_event e' (st\<lparr>webhook_events := webhook_events st @ [e]\<rparr>)) = webhook_events st @ [e']"
proof -
  have "\<And>r. r \<in> set (webhook_events st) \<Longrightarrow> ev_id r \<noteq> ev_id e'"
    using next_id_fresh [of _ "map ev_id (webhook_events st)"] assms by fastforce
  then have "map (\<lambda>r. if ev_id r = ev_id e' then e' else r) (webhook_events st) = webhook_events st"
    by (simp add: map_idI)
  then show ?thesis using assms(2) by (simp add: update_event_def)
qed

lemma update_event_other [simp]:
  "customers (update_event e st) = customers st"
  "subscriptions (update_event e st) = subscriptions st"
  "payments (update_event e st) = payments st"
  "metrics (update_event e st) = metrics st"
  by (simp_all add: update_event_def)

lemma commit_same_payments:
  "payments session = payments stored \<Longrightarrow> commit lib stored session = Inr session"
  by (simp add: commit_def)

lemma commit_one_payment:
  "payments session = payments stored @ [p] \<Longrightarrow> bind_integer lib (pay_amount p) = None \<Longrightarrow>
     commit lib stored session = Inr session"
  by (simp add: commit_def)

lemma commit_refused:
  "payments session = payments stored @ [p] \<Longrightarrow> bind_integer lib (pay_amount p) = Some exc \<Longrightarrow>
     commit lib stored session = Inl exc"
  by (simp add: commit_def)

lemma commit_result:
  "commit lib stored session = Inr st2 \<Longrightarrow> st2 = session"
  by (simp add: commit_def split: option.splits)

lemma process_webhook_first:
  assumes "get_existing_event st provider (w_event_id webhook) = None"
  shows "process_webhook lib now st provider webhook verified =
          (let event = new_webhook_event now st provider webhook verified;
               st0 = st\<lparr>webhook_events := webhook_events st @ [event]\<rparr>
           in case dispatch_event lib now st0 event of
                     (Inr u, st1, event1) \<Rightarrow>
                       let m = count_dispatched event1 (metrics st1);
                           event2 = event1\<lparr>next_retry_at := None, needs_attention := False\<rparr>
                       in (case commit lib st (update_event event2 (st1\<lparr>metrics := m\<rparr>)) of
                             Inr st2 \<Rightarrow> (Inr event2, st2)
                           | Inl exc \<Rightarrow>
                               (case mark_failed now m event2 (str_exc exc) of
                                  (event3, m3) \<Rightarrow>
                                    (Inl (pending_rollback lib exc), st\<lparr>metrics := m3\<rparr>)))
                   | (Inl e, st1, event1) \<Rightarrow>
                       (case mark_failed now (metrics st1) event1 (str_exc e) of
                          (event2, m) \<Rightarrow>
                            (case commit lib st (update_event event2 (st1\<lparr>metrics := m\<rparr>)) of
                               Inr st2 \<Rightarrow> (Inl e, st2)
                             | Inl exc \<Rightarrow> (Inl exc, st\<lparr>metrics := m\<rparr>))))"
proof -
  have "flush_new_event st (new_webhook_event now st provider webhook verified) =
          Inr (st\<lparr>webhook_events := webhook_events st @ [new_webhook_event now st provider webhook verified]\<rparr>)"
    using assms by (simp add: flush_new_event_def get_existing_event_def new_webhook_event_def)
  then show ?thesis using assms by (simp add: process_webhook_def Let_def)
qed

text \<open>
  C3. A first delivery (no stored event with this provider and event id) in which the
  dispatch of the new event raises \<open>e\<close>: the call raises \<open>e\<close>, the event is stored as
  \<open>failed\<close>, with the second attempt counted and the text of \<open>e\<close> as its message, and the
  committed subscriptions, payments and customers are those the store held before the
  delivery. The except branches of \<open>process_webhook\<close> call no \<open>session.rollback()\<close>; the
  state they commit is the state of the session at the \<open>raise\<close>, and every \<open>raise\<close> of the
  dispatch precedes the first assignment to a subscription or payment
  (\<open>dispatch_event_raise\<close>), so that this state is the one a rollback would restore and
  the commit has the event row alone to write.
\<close>

theorem failed_first_delivery_no_side_effects:
  assumes "get_existing_event st provider (w_event_id webhook) = None"
      and "dispatch_event lib now
             (st\<lparr>webhook_events := webhook_events st @ [new_webhook_event now st provider webhook verified]\<rparr>)
             (new_webhook_event now st provider webhook verified) = (Inl e, st1, event1)"
      and "process_webhook lib now st provider webhook verified = (r, st')"
  shows "r = Inl e \<and>
         subscriptions st' = subscriptions st \<and> payments st' = payments st \<and>
         customers st' = customers st \<and>
         webhook_events st' = webhook_events st @
           [\<lparr>ev_id = next_id (map ev_id (webhook_events st)), ev_provider = provider,
             event_id = w_event_id webhook, event_type = w_event_type webhook,
             payload_raw = raw_body verified, signature = v_signature verified,
             signature_timestamp = v_timestamp verified, received_at = now,
             processed_at = Some now, attempt_count = 2,
             next_retry_at = Some (now + timedelta_seconds 600),
             needs_attention = False, processing_status = failed,
             error_message = Some (str_exc e)\<rparr>]"
proof -
  define event where "event = new_webhook_event now st provider webhook verified"
  define st0 where "st0 = st\<lparr>webhook_events := webhook_events st @ [event]\<rparr>"
  from assms(2) have d: "dispatch_event lib now st0 event = (Inl e, st1, event1)"
    by (simp add: st0_def event_def)
  then have same: "st1 = st0" "event1 = event"
    using dispatch_event_raise by blast+
  define event2 where "event2 = event\<lparr>attempt_count := 2, next_retry_at := Some (now + timedelta_seconds 600),
               needs_attention := False, processing_status := failed, processed_at := Some now,
               error_message := Some (str_exc e)\<rparr>"
  define m where "m = (metrics st0)\<lparr>webhook_failed := webhook_failed (metrics st0) + 1\<rparr>"
  have mf: "mark_failed now (metrics st0) event (str_exc e) = (event2, m)"
    by (simp add: mark_failed_eq event2_def m_def event_def new_webhook_event_def)
  have c: "commit lib st (update_event event2 (st0\<lparr>metrics := m\<rparr>)) = Inr (update_event event2 (st0\<lparr>metrics := m\<rparr>))"
    by (rule commit_same_payments) (simp add: st0_def)
  have "process_webhook lib now st provider webhook verified =
          (Inl e, update_event event2 (st0\<lparr>metrics := m\<rparr>))"
    unfolding process_webhook_first [OF assms(1)] Let_def event_def [symmetric] st0_def [symmetric]
    by (simp add: d same mf c)
  with assms(3) have r: "r = Inl e" and st': "st' = update_event event2 (st0\<lparr>metrics := m\<rparr>)"
    by simp_all
  have "webhook_events st' = webhook_events st @ [event2]"
    unfolding st' st0_def
    using update_event_fresh [of event "st\<lparr>metrics := m\<rparr>" event2]
    by (simp add: event2_def event_def new_webhook_event_def update_event_def)
  moreover have "subscriptions st' = subscriptions st" "payments st' = payments st" "customers st' = customers st"
    by (simp_all add: st' st0_def)
  ultimately show ?thesis using r by (simp add: event2_def event_def new_webhook_event_def)
qed

theorem failed_first_delivery_no_side_effects_witness:
  "get_existing_event (run sample_lib empty_store [op_create, op_pay_1]) ''test'' (w_event_id orphan_webhook) = None \<and>
   fst (process_webhook sample_lib 1700000400000000 (run sample_lib empty_store [op_create, op_pay_1])
          ''test'' orphan_webhook (sample_verified ''body_orphan'' ''sig_orphan'' 1700000400))
     = Inl (InvalidPayloadError ''provider_subscription_id not found'') \<and>
   subscriptions (snd (process_webhook sample_lib 1700000400000000 (run sample_lib empty_store [op_create, op_pay_1])
          ''test'' orphan_webhook (sample_verified ''body_orphan'' ''sig_orphan'' 1700000400)))
     = [sample_subscription] \<and>
   length (payments (snd (process_webhook sample_lib 1700000400000000 (run sample_lib empty_store [op_create, op_pay_1])
          ''test'' orphan_webhook (sample_verified ''body_orphan'' ''sig_orphan'' 1700000400)))) = 1 \<and>
   map processing_status (webhook_events (snd (process_webhook sample_lib 1700000400000000 (run sample_lib empty_store [op_create, op_pay_1])
          ''test'' orphan_webhook (sample_verified ''body_orphan'' ''sig_orphan'' 1700000400))))
     = [processed, failed]"
proof -
  let ?st = "run sample_lib empty_store [op_create, op_pay_1]"
  let ?v = "sample_verified ''body_orphan'' ''sig_orphan'' 1700000400"
  let ?e = "new_webhook_event 1700000400000000 ?st ''test'' orphan_webhook ?v"
  let ?flushed = "?st\<lparr>webhook_events := webhook_events ?st @ [?e]\<rparr>"
  let ?p = "process_webhook sample_lib 1700000400000000 ?st ''test'' orphan_webhook ?v"
  have h1: "get_existing_event ?st ''test'' (w_event_id orphan_webhook) = None"
    by code_simp
  have h2: "dispatch_event sample_lib 1700000400000000 ?flushed ?e =
              (Inl (InvalidPayloadError ''provider_subscription_id not found''), ?flushed, ?e)"
    by code_simp
  have h3: "?p = (fst ?p, snd ?p)" by simp
  have s: "subscriptions ?st = [sample_subscription]" by code_simp
  have p: "length (payments ?st) = 1" by code_simp
  have e: "map processing_status (webhook_events ?st) = [processed]" by code_simp
  from failed_first_delivery_no_side_effects [OF h1 h2 h3] h1 s p e
  show ?thesis by simp
qed

section \<open>Replayed deliveries that do not match\<close>

lemma find_update_same_key:
  assumes "find P xs = Some x" and "P e'"
  shows "find P (map (\<lambda>r. if f r = f x then e' else r) xs) = Some e'"
  using assms(1)
proof (induction xs)
  case Nil
  then show ?case by simp
next
  case (Cons y ys)
  show ?case
  proof (cases "P y")
    case True
    with Cons.prems have "x = y" by simp
    then show ?thesis using assms(2) by simp
  next
    case False
    with Cons.prems have "find P ys = Some x" by simp
    then have "find P (map (\<lambda>r. if f r = f x then e' else r) ys) = Some e'" by (rule Cons.IH)
    then show ?thesis using False assms(2) by simp
  qed
qed

lemma get_existing_event_update:
  assumes "get_existing_event st provider eid = Some existing"
      and "ev_id e' = ev_id existing" and "ev_provider e' = provider" and "event_id e' = eid"
  shows "get_existing_event (update_event e' (st\<lparr>metrics := m\<rparr>)) provider eid = Some e'"
  using find_update_same_key [of "\<lambda>e. ev_provider e = provider \<and> event_id e = eid" "webhook_events st" existing e' ev_id]
    assms
  by (simp add: get_existing_event_def update_event_def)

text \<open>
  C4. A delivery of a stored \<open>(provider, event_id)\<close> whose timestamp differs from the
  stored \<open>signature_timestamp\<close>, or whose signature differs from the stored one: the
  call raises \<open>ReplayAttackError\<close> with the message \<open>replay timestamp mismatch\<close> (the
  timestamp is compared first) or \<open>replay signature mismatch\<close>, and the committed store
  holds the event marked failed with that message; subscriptions, payments and
  customers are untouched.
\<close>

theorem replay_mismatch_marked_failed:
  assumes "get_existing_event st provider (w_event_id webhook) = Some existing"
      and "v_timestamp verified \<noteq> signature_timestamp existing \<or> v_signature verified \<noteq> signature existing"
      and "process_webhook lib now st provider webhook verified = (r, st')"
  shows "r = Inl (ReplayAttackError
                    (if v_timestamp verified \<noteq> signature_timestamp existing
                     then ''replay timestamp mismatch'' else ''replay signature mismatch'')) \<and>
         get_existing_event st' provider (w_event_id webhook) =
           Some (existing\<lparr>attempt_count := attempt_count existing + 1,
                   next_retry_at := Some (now + timedelta_seconds (min (300 * (attempt_count existing + 1)) 3600)),
                   needs_attention := (3 \<le> attempt_count existing + 1),
                   processing_status := failed, processed_at := Some now,
                   error_message :=
                     Some (if v_timestamp verified \<noteq> signature_timestamp existing
                           then ''replay timestamp mismatch'' else ''replay signature mismatch'')\<rparr>) \<and>
         subscriptions st' = subscriptions st \<and> payments st' = payments st \<and>
         customers st' = customers st \<and>
         webhook_failed (metrics st') = webhook_failed (metrics st) + 1"
proof -
  define msg where "msg = (if v_timestamp verified \<noteq> signature_timestamp existing
                     then ''replay timestamp mismatch'' else ''replay signature mismatch'')"
  define event1 where "event1 = existing\<lparr>attempt_count := attempt_count existing + 1,
                   next_retry_at := Some (now + timedelta_seconds (min (300 * (attempt_count existing + 1)) 3600)),
                   needs_attention := (3 \<le> attempt_count existing + 1),
                   processing_status := failed, processed_at := Some now,
                   error_message := Some msg\<rparr>"
  have key: "ev_provider existing = provider" "event_id existing = w_event_id webhook"
    using find_SomeD [of _ "webhook_events st" existing] assms(1)
    by (auto simp: get_existing_event_def)
  have "process_webhook lib now st provider webhook verified =
          (Inl (ReplayAttackError msg),
           update_event event1 (st\<lparr>metrics := (metrics st)\<lparr>webhook_failed := webhook_failed (metrics st) + 1\<rparr>\<rparr>))"
    using assms(1,2)
    by (auto simp: process_webhook_def handle_existing_event_def mark_failed_eq msg_def event1_def)
  with assms(3) have r: "r = Inl (ReplayAttackError msg)"
    and st': "st' = update_event event1 (st\<lparr>metrics := (metrics st)\<lparr>webhook_failed := webhook_failed (metrics st) + 1\<rparr>\<rparr>)"
    by simp_all
  have "get_existing_event st' provider (w_event_id webhook) = Some event1"
    unfolding st'
    by (rule get_existing_event_update [OF assms(1)]) (simp_all add: event1_def key)
  moreover have "subscriptions st' = subscriptions st" "payments st' = payments st"
    "customers st' = customers st" "webhook_failed (metrics st') = webhook_failed (metrics st) + 1"
    by (simp_all add: st')
  ultimately show ?thesis using r unfolding msg_def event1_def by simp
qed

theorem replay_mismatch_marked_failed_witness:
  "get_existing_event (run sample_lib empty_store [op_create, op_pay_1]) ''test''
      (w_event_id (sample_webhook ''evt_pay_1'' ''payment.succeeded'' 1702592000)) = Some pay_1_event \<and>
   v_timestamp (sample_verified ''body_pay_1'' ''sig_other'' 1700000150) \<noteq> signature_timestamp pay_1_event \<and>
   fst (process_webhook sample_lib 1700000160000000 (run sample_lib empty_store [op_create, op_pay_1]) ''test''
          (sample_webhook ''evt_pay_1'' ''payment.succeeded'' 1702592000)
          (sample_verified ''body_pay_1'' ''sig_other'' 1700000150))
     = Inl (ReplayAttackError ''replay timestamp mismatch'') \<and>
   get_existing_event
     (snd (process_webhook sample_lib 1700000160000000 (run sample_lib empty_store [op_create, op_pay_1]) ''test''
          (sample_webhook ''evt_pay_1'' ''payment.succeeded'' 1702592000)
          (sample_verified ''body_pay_1'' ''sig_other'' 1700000150)))
     ''test'' ''evt_pay_1''
     = Some (pay_1_event\<lparr>attempt_count := 2, next_retry_at := Some 1700000760000000,
               needs_attention := False, processing_status := failed,
               processed_at := Some 1700000160000000,
               error_message := Some ''replay timestamp mismatch''\<rparr>)"
proof -
  let ?st = "run sample_lib empty_store [op_create, op_pay_1]"
  let ?w = "sample_webhook ''evt_pay_1'' ''payment.succeeded'' 1702592000"
  let ?v = "sample_verified ''body_pay_1'' ''sig_other'' 1700000150"
  let ?p = "process_webhook sample_lib 1700000160000000 ?st ''test'' ?w ?v"
  have h1: "get_existing_event ?st ''test'' (w_event_id ?w) = Some pay_1_event"
    by code_simp
  have n: "v_timestamp ?v \<noteq> signature_timestamp pay_1_event"
    by (simp add: sample_verified_def pay_1_event_def)
  then have h2: "v_timestamp ?v \<noteq> signature_timestamp pay_1_event \<or> v_signature ?v \<noteq> signature pay_1_event"
    by simp
  have h3: "?p = (fst ?p, snd ?p)" by simp
  from replay_mismatch_marked_failed [OF h1 h2 h3] h1 n
  show ?thesis by (simp add: pay_1_event_def timedelta_seconds_def sample_webhook_def)
qed

section \<open>The attention flag\<close>

lemma handle_payment_succeeded_tables:
  "handle_payment_succeeded lib now st event pd = (r, st1, event1) \<Longrightarrow>
     webhook_events st1 = webhook_events st \<and> customers st1 = customers st \<and> metrics st1 = metrics st"
  unfolding handle_payment_succeeded_def
  by (auto split: sum.splits if_splits simp: Let_def insert_payment_def update_subscription_def)

lemma handle_invoice_payment_failed_tables:
  "handle_invoice_payment_failed lib now st event pd = (r, st1, event1) \<Longrightarrow>
     webhook_events st1 = webhook_events st \<and> customers st1 = customers st \<and> metrics st1 = metrics st"
  unfolding handle_invoice_payment_failed_def
  by (auto split: sum.splits if_splits simp: Let_def insert_payment_def update_subscription_def)

lemma handler_tables:
  "EVENT_HANDLERS t = Some h \<Longrightarrow> h lib now st event pd = (r, st1, event1) \<Longrightarrow>
     webhook_events st1 = webhook_events st \<and> customers st1 = customers st \<and> metrics st1 = metrics st"
  using EVENT_HANDLERS_cases handle_payment_succeeded_tables handle_invoice_payment_failed_tables
  by blast

lemma dispatch_event_tables:
  "dispatch_event lib now st event = (r, st1, event1) \<Longrightarrow>
     webhook_events st1 = webhook_events st \<and> customers st1 = customers st \<and> metrics st1 = metrics st"
  unfolding dispatch_event_def
  by (auto split: sum.splits json.splits option.splits prod.splits dest: handler_tables)

lemma attention_inv_events:
  "webhook_events st' = webhook_events st \<Longrightarrow> attention_inv st' = attention_inv st"
  by (simp add: attention_inv_def)

lemma attention_inv_metrics [simp]: "attention_inv (st\<lparr>metrics := m\<rparr>) = attention_inv st"
  by (simp add: attention_inv_def)

lemma attention_inv_update_event:
  "attention_inv st \<Longrightarrow> attention_ok e \<Longrightarrow> attention_inv (update_event e st)"
  by (auto simp: attention_inv_def update_event_def)

lemma attention_inv_append:
  "attention_inv st \<Longrightarrow> attention_ok e \<Longrightarrow> attention_inv (st\<lparr>webhook_events := webhook_events st @ [e]\<rparr>)"
  by (auto simp: attention_inv_def)

lemma attention_ok_mark_failed:
  "mark_failed now m event message = (event', m') \<Longrightarrow> attention_ok event'"
  by (auto simp: mark_failed_eq attention_ok_def)

lemma attention_ok_cleared:
  "\<not> needs_attention e \<Longrightarrow> processing_status e \<noteq> failed \<Longrightarrow> attention_ok e"
  by (simp add: attention_ok_def)

lemma attention_inv_dispatch:
  "attention_inv st \<Longrightarrow> dispatch_event lib now st event = (r, st1, event1) \<Longrightarrow> attention_inv st1"
  using dispatch_event_tables attention_inv_events by blast

lemma dispatch_event_ok_status:
  "dispatch_event lib now st event = (Inr u, st1, event1) \<Longrightarrow> processing_status event1 \<noteq> failed"
  unfolding dispatch_event_def handle_unknown_event_def
  by (auto split: sum.splits json.splits option.splits prod.splits)

text \<open>What a caller stores after a dispatch: the event marked failed, or the event with
  the flag cleared; and what a commit leaves.\<close>

lemma attention_inv_store_failed:
  assumes "attention_inv st" and "dispatch_event lib now st event = (r, st1, event1)"
      and "mark_failed now m0 event0 message = (event2, m)"
  shows "attention_inv (update_event event2 (st1\<lparr>metrics := m'\<rparr>))"
  using attention_inv_dispatch [OF assms(1,2)] attention_ok_mark_failed [OF assms(3)]
  by (simp add: attention_inv_update_event)

lemma attention_inv_store_ok:
  assumes "attention_inv st" and "dispatch_event lib now st event = (Inr u, st1, event1)"
      and "\<not> needs_attention event2" and "processing_status event2 = processing_status event1"
  shows "attention_inv (update_event event2 (st1\<lparr>metrics := m\<rparr>))"
proof -
  have "processing_status event2 \<noteq> failed"
    using dispatch_event_ok_status [OF assms(2)] assms(4) by simp
  then have "attention_ok event2" using assms(3) by (simp add: attention_ok_cleared)
  then show ?thesis
    using attention_inv_dispatch [OF assms(1,2)] by (simp add: attention_inv_update_event)
qed

lemma attention_inv_commit:
  assumes "attention_inv stored" and "attention_inv session"
  shows "attention_inv (case commit lib stored session of
                          Inr st2 \<Rightarrow> st2 | Inl exc \<Rightarrow> stored\<lparr>metrics := m exc\<rparr>)"
  using assms by (auto simp: commit_def split: option.splits)

lemma attention_inv_handle_existing_event:
  assumes "attention_inv st"
  shows "attention_inv (snd (handle_existing_event lib now st event verified))"
proof -
  obtain r st1 event1 where d: "dispatch_event lib now st event = (r, st1, event1)"
    by (cases "dispatch_event lib now st event") auto
  have replay: "attention_inv (snd (case mark_failed now (metrics st) event msg of
           (event1, m) \<Rightarrow> (x, update_event event1 (st\<lparr>metrics := m\<rparr>))))" for msg x
  proof -
    obtain event2 m where mf: "mark_failed now (metrics st) event msg = (event2, m)"
      by (cases "mark_failed now (metrics st) event msg") auto
    show ?thesis using assms attention_ok_mark_failed [OF mf]
      by (simp add: mf attention_inv_update_event)
  qed
  consider (ts) "v_timestamp verified \<noteq> signature_timestamp event"
    | (sg) "v_timestamp verified = signature_timestamp event" "v_signature verified \<noteq> signature event"
    | (seen) "v_timestamp verified = signature_timestamp event" "v_signature verified = signature event"
        "processing_status event \<in> {processed, ignored}"
    | (again) "v_timestamp verified = signature_timestamp event" "v_signature verified = signature event"
        "processing_status event = failed"
    | (other) "v_timestamp verified = signature_timestamp event" "v_signature verified = signature event"
        "processing_status event = received"
    by (cases "processing_status event") auto
  then show ?thesis
  proof cases
    case ts
    then show ?thesis using replay by (simp add: handle_existing_event_def)
  next
    case sg
    then show ?thesis using replay by (simp add: handle_existing_event_def)
  next
    case seen
    then show ?thesis using assms by (auto simp: handle_existing_event_def)
  next
    case other
    then show ?thesis using assms by (simp add: handle_existing_event_def)
  next
    case again
    show ?thesis
    proof (cases r)
      case (Inl e)
      with d have d': "dispatch_event lib now st event = (Inl e, st1, event1)" by simp
      obtain event2 m where mf: "mark_failed now (metrics st1) event1 (str_exc e) = (event2, m)"
        by (cases "mark_failed now (metrics st1) event1 (str_exc e)") auto
      have "attention_inv (update_event event2 (st1\<lparr>metrics := m\<rparr>))"
        by (rule attention_inv_store_failed [OF assms d' mf])
      from attention_inv_commit [OF assms this, where lib = lib and m = "\<lambda>_. m"]
      show ?thesis using again
        by (simp add: handle_existing_event_def d' mf split: sum.splits)
    next
      case (Inr u)
      with d have d': "dispatch_event lib now st event = (Inr u, st1, event1)" by simp
      define event2 where "event2 = event1\<lparr>next_retry_at := None, needs_attention := False, error_message := None\<rparr>"
      obtain event3 m3 where mf: "\<And>exc. mark_failed now (metrics st1) event2 (str_exc exc) = (event3 exc, m3 exc)"
        by (simp add: mark_failed_eq)
      have "attention_inv (update_event event2 (st1\<lparr>metrics := metrics st1\<rparr>))"
        by (rule attention_inv_store_ok [OF assms d']) (simp_all add: event2_def)
      then have "attention_inv (update_event event2 st1)" by simp
      from attention_inv_commit [OF assms this, where lib = lib and m = m3]
      show ?thesis using again
        by (simp add: handle_existing_event_def d' Let_def event2_def [symmetric] mf split: sum.splits)
    qed
  qed
qed

lemma attention_inv_process_webhook:
  assumes "attention_inv st"
  shows "attention_inv (snd (process_webhook lib now st provider webhook verified))"
proof (cases "get_existing_event st provider (w_event_id webhook)")
  case (Some existing)
  then show ?thesis using attention_inv_handle_existing_event [OF assms]
    by (simp add: process_webhook_def)
next
  case None
  define event where "event = new_webhook_event now st provider webhook verified"
  define st0 where "st0 = st\<lparr>webhook_events := webhook_events st @ [event]\<rparr>"
  have inv0: "attention_inv st0"
    unfolding st0_def
    by (rule attention_inv_append [OF assms]) (simp add: attention_ok_def event_def new_webhook_event_def)
  obtain r st1 event1 where d: "dispatch_event lib now st0 event = (r, st1, event1)"
    by (cases "dispatch_event lib now st0 event") auto
  show ?thesis
  proof (cases r)
    case (Inl e)
    with d have d': "dispatch_event lib now st0 event = (Inl e, st1, event1)" by simp
    obtain event2 m where mf: "mark_failed now (metrics st1) event1 (str_exc e) = (event2, m)"
      by (cases "mark_failed now (metrics st1) event1 (str_exc e)") auto
    have "attention_inv (update_event event2 (st1\<lparr>metrics := m\<rparr>))"
      by (rule attention_inv_store_failed [OF inv0 d' mf])
    from attention_inv_commit [OF assms this, where lib = lib and m = "\<lambda>_. m"]
    show ?thesis
      by (simp add: process_webhook_first [OF None] Let_def event_def [symmetric]
            st0_def [symmetric] d' mf split: sum.splits)
  next
    case (Inr u)
    with d have d': "dispatch_event lib now st0 event = (Inr u, st1, event1)" by simp
    define event2 where "event2 = event1\<lparr>next_retry_at := None, needs_attention := False\<rparr>"
    define m where "m = count_dispatched event1 (metrics st1)"
    obtain event3 m3 where mf: "\<And>exc. mark_failed now m event2 (str_exc exc) = (event3 exc, m3 exc)"
      by (simp add: mark_failed_eq)
    have "attention_inv (update_event event2 (st1\<lparr>metrics := m\<rparr>))"
      by (rule attention_inv_store_ok [OF inv0 d']) (simp_all add: event2_def)
    from attention_inv_commit [OF assms this, where lib = lib and m = m3]
    show ?thesis
      by (simp add: process_webhook_first [OF None] Let_def event_def [symmetric]
            st0_def [symmetric] d' event2_def [symmetric] m_def [symmetric] mf split: sum.splits)
  qed
qed

lemma attention_inv_retry_loop:
  "attention_inv st \<Longrightarrow> attention_inv (fst (retry_loop lib now events st ps fs))"
proof (induction events arbitrary: st ps fs)
  case Nil
  then show ?case by simp
next
  case (Cons event events)
  obtain r st1 event1 where d: "dispatch_event lib now st event = (r, st1, event1)"
    by (cases "dispatch_event lib now st event") auto
  show ?case
  proof (cases r)
    case (Inl e)
    with d have d': "dispatch_event lib now st event = (Inl e, st1, event1)" by simp
    obtain event2 m where mf: "mark_failed now (metrics st1) event1 (str_exc e) = (event2, m)"
      by (cases "mark_failed now (metrics st1) event1 (str_exc e)") auto
    have "attention_inv (update_event event2 (st1\<lparr>metrics := m\<rparr>))"
      by (rule attention_inv_store_failed [OF Cons.prems d' mf])
    then show ?thesis using Cons.IH by (simp add: d' mf)
  next
    case (Inr u)
    with d have d': "dispatch_event lib now st event = (Inr u, st1, event1)" by simp
    have "attention_inv (update_event (event1\<lparr>next_retry_at := None, needs_attention := False, error_message := None\<rparr>)
             (st1\<lparr>metrics := count_dispatched event1 (metrics st1)\<rparr>))"
      by (rule attention_inv_store_ok [OF Cons.prems d']) simp_all
    then show ?thesis using Cons.IH by (simp add: d' Let_def)
  qed
qed

lemma attention_inv_retry_failed_webhooks:
  "attention_inv st \<Longrightarrow> attention_inv (snd (retry_failed_webhooks lib now st limit))"
  using attention_inv_retry_loop [of st lib now "retry_candidates now limit st" "[]" "[]"]
  by (auto simp: retry_failed_webhooks_def Let_def split: prod.splits)

lemma attention_inv_reprocess_webhook_event:
  assumes "attention_inv st"
  shows "attention_inv (snd (reprocess_webhook_event lib now st eid))"
proof (cases "get_webhook_event st eid None")
  case (Inl e)
  then show ?thesis using assms by (simp add: reprocess_webhook_event_def)
next
  case found: (Inr event)
  obtain r st1 event1 where d: "dispatch_event lib now st event = (r, st1, event1)"
    by (cases "dispatch_event lib now st event") auto
  show ?thesis
  proof (cases r)
    case (Inl e)
    with d have d': "dispatch_event lib now st event = (Inl e, st1, event1)" by simp
    obtain event2 m where mf: "mark_failed now (metrics st1) event1 (str_exc e) = (event2, m)"
      by (cases "mark_failed now (metrics st1) event1 (str_exc e)") auto
    have "attention_inv (update_event event2 (st1\<lparr>metrics := m\<rparr>))"
      by (rule attention_inv_store_failed [OF assms d' mf])
    then show ?thesis by (simp add: reprocess_webhook_event_def found d' mf)
  next
    case (Inr u)
    with d have d': "dispatch_event lib now st event = (Inr u, st1, event1)" by simp
    have "attention_inv (update_event (event1\<lparr>next_retry_at := None, needs_attention := False, error_message := None\<rparr>)
             (st1\<lparr>metrics := count_dispatched event1 (metrics st1)\<rparr>))"
      by (rule attention_inv_store_ok [OF assms d']) simp_all
    then show ?thesis by (simp add: reprocess_webhook_event_def found d' Let_def)
  qed
qed

lemma create_subscription_events:
  "webhook_events (snd (create_subscription now hex1 hex2 st subscription_in)) = webhook_events st"
  by (auto simp: create_subscription_def get_or_create_customer_by_email_def
        ensure_provider_customer_id_def update_customer_def Let_def
      split: option.splits sum.splits prod.splits if_splits)

lemma sweeps_events:
  "webhook_events (snd (enforce_grace_period now st)) = webhook_events st"
  "webhook_events (snd (expire_subscriptions now st)) = webhook_events st"
  "webhook_events (snd (set_subscription_cancel_at_period_end now st sid flag)) = webhook_events st"
  by (simp_all add: enforce_grace_period_def expire_subscriptions_def
        set_subscription_cancel_at_period_end_def update_subscription_def Let_def
      split: option.splits)

lemma attention_inv_apply_operation:
  "attention_inv st \<Longrightarrow> attention_inv (apply_operation lib st op)"
proof (cases op)
  case (CreateSubscription now hex1 hex2 subscription_in)
  then show "attention_inv st \<Longrightarrow> ?thesis"
    using attention_inv_events [OF create_subscription_events] by simp
next
  case (ProcessWebhook now provider webhook verified)
  then show "attention_inv st \<Longrightarrow> ?thesis" by (simp add: attention_inv_process_webhook)
next
  case (RetryFailedWebhooks now limit)
  then show "attention_inv st \<Longrightarrow> ?thesis" by (simp add: attention_inv_retry_failed_webhooks)
next
  case (ReprocessWebhookEvent now eid)
  then show "attention_inv st \<Longrightarrow> ?thesis" by (simp add: attention_inv_reprocess_webhook_event)
next
  case (EnforceGracePeriod now)
  then show "attention_inv st \<Longrightarrow> ?thesis" using attention_inv_events [OF sweeps_events(1)] by simp
next
  case (ExpireSubscriptions now)
  then show "attention_inv st \<Longrightarrow> ?thesis" using attention_inv_events [OF sweeps_events(2)] by simp
next
  case (SetCancelAtPeriodEnd now sid flag)
  then show "attention_inv st \<Longrightarrow> ?thesis" using attention_inv_events [OF sweeps_events(3)] by simp
qed

lemma attention_inv_run: "attention_inv st \<Longrightarrow> attention_inv (run lib st ops)"
  unfolding run_def
  by (induction ops arbitrary: st) (simp_all add: attention_inv_apply_operation)

lemma attention_inv_empty_store: "attention_inv empty_store"
  by (simp add: attention_inv_def empty_store_def)

lemma retry_candidates_subset:
  "e \<in> set (retry_candidates now limit st) \<Longrightarrow>
     e \<in> set (webhook_events st) \<and> processing_status e = failed \<and> \<not> needs_attention e"
proof -
  assume "e \<in> set (retry_candidates now limit st)"
  then have "e \<in> set (sort_key ev_id
       (filter (\<lambda>e. processing_status e = failed \<and> needs_attention e = False \<and>
                     (case next_retry_at e of None \<Rightarrow> True | Some t \<Rightarrow> t \<le> now))
               (webhook_events st)))"
    unfolding retry_candidates_def by (rule in_set_takeD)
  then show ?thesis by simp
qed

text \<open>
  C5, as stated, fails on events that are no longer failed. After \<open>evt_pay_1\<close> is
  processed, two deliveries that present another timestamp mark it failed twice (three
  attempts, flag set); the admin reprocess then dispatches it successfully, which makes
  it \<open>processed\<close> and clears \<open>needs_attention\<close>, while \<open>attempt_count\<close> stays 3.
\<close>

theorem attention_flag_counterexample:
  "length (webhook_events (run sample_lib empty_store
      [op_create, op_pay_1, op_replay_1 1700000160000000, op_replay_1 1700000170000000,
       ReprocessWebhookEvent 1700000180000000 ''evt_pay_1''])) = 1 \<and>
   3 \<le> attempt_count (hd (webhook_events (run sample_lib empty_store
      [op_create, op_pay_1, op_replay_1 1700000160000000, op_replay_1 1700000170000000,
       ReprocessWebhookEvent 1700000180000000 ''evt_pay_1'']))) \<and>
   \<not> needs_attention (hd (webhook_events (run sample_lib empty_store
      [op_create, op_pay_1, op_replay_1 1700000160000000, op_replay_1 1700000170000000,
       ReprocessWebhookEvent 1700000180000000 ''evt_pay_1''])))"
  by code_simp

text \<open>
  C5, amended. In every store reached from the empty one by the operations, an event
  has \<open>needs_attention\<close> set if and only if its \<open>processing_status\<close> is \<open>failed\<close> and its
  \<open>attempt_count\<close> is at least 3; and no event with the flag set, and no event with
  \<open>attempt_count\<close> at least 3, is among the candidates the retry sweep selects. (The
  flag is assigned \<open>attempt_count \<ge> 3\<close> at each failure; each successful dispatch makes
  the event \<open>processed\<close> or \<open>ignored\<close> and clears the flag, leaving \<open>attempt_count\<close> as it
  is.)
\<close>

theorem needs_attention_iff_failed_three_times:
  "\<forall>e\<in>set (webhook_events (run lib empty_store ops)).
     (needs_attention e \<longleftrightarrow> processing_status e = failed \<and> 3 \<le> attempt_count e) \<and>
     (needs_attention e \<longrightarrow> e \<notin> set (retry_candidates now limit (run lib empty_store ops))) \<and>
     (3 \<le> attempt_count e \<longrightarrow> e \<notin> set (retry_candidates now limit (run lib empty_store ops)))"
proof
  fix e assume e: "e \<in> set (webhook_events (run lib empty_store ops))"
  have "attention_inv (run lib empty_store ops)"
    by (rule attention_inv_run [OF attention_inv_empty_store])
  with e have iff: "needs_attention e \<longleftrightarrow> processing_status e = failed \<and> 3 \<le> attempt_count e"
    by (simp add: attention_inv_def attention_ok_def)
  have cand: "e \<in> set (retry_candidates now limit (run lib empty_store ops)) \<Longrightarrow>
                processing_status e = failed \<and> \<not> needs_attention e"
    using retry_candidates_subset [of e now limit "run lib empty_store ops"] by simp
  show "(needs_attention e \<longleftrightarrow> processing_status e = failed \<and> 3 \<le> attempt_count e) \<and>
     (needs_attention e \<longrightarrow> e \<notin> set (retry_candidates now limit (run lib empty_store ops))) \<and>
     (3 \<le> attempt_count e \<longrightarrow> e \<notin> set (retry_candidates now limit (run lib empty_store ops)))"
    using iff cand by blast
qed

theorem needs_attention_iff_failed_three_times_witness:
  "hd (webhook_events (run sample_lib empty_store
      [op_create, op_pay_1, op_replay_1 1700000160000000, op_replay_1 1700000170000000]))
     \<in> set (webhook_events (run sample_lib empty_store
      [op_create, op_pay_1, op_replay_1 1700000160000000, op_replay_1 1700000170000000])) \<and>
   processing_status (hd (webhook_events (run sample_lib empty_store
      [op_create, op_pay_1, op_replay_1 1700000160000000, op_replay_1 1700000170000000]))) = failed \<and>
   attempt_count (hd (webhook_events (run sample_lib empty_store
      [op_create, op_pay_1, op_replay_1 1700000160000000, op_replay_1 1700000170000000]))) = 3 \<and>
   needs_attention (hd (webhook_events (run sample_lib empty_store
      [op_create, op_pay_1, op_replay_1 1700000160000000, op_replay_1 1700000170000000]))) \<and>
   hd (webhook_events (run sample_lib empty_store
      [op_create, op_pay_1, op_replay_1 1700000160000000, op_replay_1 1700000170000000]))
     \<notin> set (retry_candidates 1700009999000000 50 (run sample_lib empty_store
      [op_create, op_pay_1, op_replay_1 1700000160000000, op_replay_1 1700000170000000]))"
proof -
  let ?st = "run sample_lib empty_store
      [op_create, op_pay_1, op_replay_1 1700000160000000, op_replay_1 1700000170000000]"
  have m: "hd (webhook_events ?st) \<in> set (webhook_events ?st)" by code_simp
  have f: "processing_status (hd (webhook_events ?st)) = failed" by code_simp
  have c: "attempt_count (hd (webhook_events ?st)) = 3" by code_simp
  from needs_attention_iff_failed_three_times [of sample_lib
      "[op_create, op_pay_1, op_replay_1 1700000160000000, op_replay_1 1700000170000000]"
      1700009999000000 50] m f c
  show ?thesis by auto
qed

section \<open>Secrets loaded from the environment\<close>

lemma simple_registry_candidates:
  assumes "\<forall>v\<in>snd ` set reg. \<exists>s. v = JStr s"
  shows "get_secret_candidates reg provider key_id =
           (case map_of reg provider of Some (JStr s) \<Rightarrow> [s] | _ \<Rightarrow> [])"
proof (cases "map_of reg provider")
  case None
  then show ?thesis by (simp add: get_secret_candidates_def)
next
  case (Some v)
  then have "(provider, v) \<in> set reg" by (rule map_of_SomeD)
  then have "v \<in> snd ` set reg" by force
  with assms obtain s where "v = JStr s" by blast
  with Some show ?thesis by (simp add: get_secret_candidates_def)
qed

lemma loaded_registry_strings:
  assumes "load_webhook_secrets lib raw = Inr reg"
  shows "\<forall>v\<in>snd ` set reg. \<exists>s. v = JStr s"
proof -
  have d: "\<forall>v\<in>snd ` set DEFAULT_WEBHOOK_SECRETS. \<exists>s. v = JStr s"
    by (simp add: DEFAULT_WEBHOOK_SECRETS_def)
  have m: "\<forall>v\<in>snd ` set (map (\<lambda>(k, v). (k, JStr (py_str lib v))) loaded). \<exists>s. v = JStr s" for loaded
    by auto
  from assms consider "reg = DEFAULT_WEBHOOK_SECRETS"
    | loaded where "reg = map (\<lambda>(k, v). (k, JStr (py_str lib v))) loaded"
    by (auto simp: load_webhook_secrets_def split: option.splits if_splits sum.splits json.splits error.splits)
  then show ?thesis using d m by cases blast+
qed

text \<open>
  C9. When the value of \<open>WEBHOOK_SECRETS_JSON\<close> parses as a JSON object, the loader
  returns a registry in which every value is a string (\<open>str(v)\<close> of the parsed value;
  for an empty text the built-in defaults, which are strings too). Over such a registry
  no provider maps to a rotation entry, and the candidates of a provider are the empty
  list (unknown provider) or the one stored string, whatever the key id.
\<close>

theorem environment_registry_simple_mode:
  assumes "json_loads lib raw = Inr (JObj loaded)"
      and "load_webhook_secrets lib (Some raw) = r"
  shows "\<exists>reg. r = Inr reg \<and>
           (raw \<noteq> [] \<longrightarrow> reg = map (\<lambda>(k, v). (k, JStr (py_str lib v))) loaded) \<and>
           (\<forall>v\<in>snd ` set reg. \<exists>s. v = JStr s) \<and>
           (\<forall>provider key_id.
              (\<forall>cfg. map_of reg provider \<noteq> Some (JObj cfg)) \<and>
              get_secret_candidates reg provider key_id =
                (case map_of reg provider of Some (JStr s) \<Rightarrow> [s] | _ \<Rightarrow> []) \<and>
              length (get_secret_candidates reg provider key_id) \<le> 1)"
proof -
  define reg where "reg = (if raw = [] then DEFAULT_WEBHOOK_SECRETS
                           else map (\<lambda>(k, v). (k, JStr (py_str lib v))) loaded)"
  have r: "r = Inr reg"
    using assms by (auto simp: load_webhook_secrets_def reg_def)
  then have "load_webhook_secrets lib (Some raw) = Inr reg" using assms(2) by simp
  then have strs: "\<forall>v\<in>snd ` set reg. \<exists>s. v = JStr s" by (rule loaded_registry_strings)
  have cand: "get_secret_candidates reg provider key_id =
                (case map_of reg provider of Some (JStr s) \<Rightarrow> [s] | _ \<Rightarrow> [])" for provider key_id
    by (rule simple_registry_candidates [OF strs])
  have noobj: "map_of reg provider \<noteq> Some (JObj cfg)" for provider cfg
  proof
    assume "map_of reg provider = Some (JObj cfg)"
    then have "(provider, JObj cfg) \<in> set reg" by (rule map_of_SomeD)
    then have "JObj cfg \<in> snd ` set reg" by force
    with strs show False by blast
  qed
  have len: "length (get_secret_candidates reg provider key_id) \<le> 1" for provider key_id
    unfolding cand by (simp split: option.splits json.splits)
  show ?thesis
    using r strs cand noobj len by (intro exI [of _ reg]) (simp add: reg_def)
qed

theorem environment_registry_simple_mode_witness:
  "json_loads sample_lib ''secrets'' =
     Inr (JObj [(''stripe'', JObj [(''current'', JStr ''new''), (''previous'', JArr [JStr ''old''])]),
                (''test'', JStr ''test_secret'')]) \<and>
   load_webhook_secrets sample_lib (Some ''secrets'') =
     Inr [(''stripe'', JStr ''{...}''), (''test'', JStr ''test_secret'')] \<and>
   get_secret_candidates [(''stripe'', JStr ''{...}''), (''test'', JStr ''test_secret'')] ''stripe'' (Some ''k1'')
     = [''{...}''] \<and>
   get_secret_candidates
     [(''stripe'', JObj [(''current'', JStr ''new''), (''previous'', JArr [JStr ''old''])]),
      (''test'', JStr ''test_secret'')] ''stripe'' (Some ''k1'') = [''new'', ''old'']"
proof -
  have h: "json_loads sample_lib ''secrets'' =
     Inr (JObj [(''stripe'', JObj [(''current'', JStr ''new''), (''previous'', JArr [JStr ''old''])]),
                (''test'', JStr ''test_secret'')])"
    by code_simp
  have l: "load_webhook_secrets sample_lib (Some ''secrets'') =
     Inr [(''stripe'', JStr ''{...}''), (''test'', JStr ''test_secret'')]"
    by code_simp
  have c: "get_secret_candidates
     [(''stripe'', JObj [(''current'', JStr ''new''), (''previous'', JArr [JStr ''old''])]),
      (''test'', JStr ''test_secret'')] ''stripe'' (Some ''k1'') = [''new'', ''old'']"
    by code_simp
  from environment_registry_simple_mode [OF h l]
  have "get_secret_candidates [(''stripe'', JStr ''{...}''), (''test'', JStr ''test_secret'')] ''stripe'' (Some ''k1'')
     = (case map_of [(''stripe'', JStr ''{...}''), (''test'', JStr ''test_secret'')] ''stripe'' of
          Some (JStr s) \<Rightarrow> [s] | _ \<Rightarrow> [])"
    by blast
  then have "get_secret_candidates [(''stripe'', JStr ''{...}''), (''test'', JStr ''test_secret'')] ''stripe'' (Some ''k1'')
     = [''{...}'']" by simp
  with h l c show ?thesis by simp
qed

section \<open>What an applied event changes\<close>

lemma get_subscription_by_provider_id_in_set:
  "get_subscription_by_provider_id st psid cid = Inr subscription \<Longrightarrow>
     subscription \<in> set (subscriptions st) \<and> provider_subscription_id subscription = psid \<and>
     sub_customer_id subscription = cid"
  by (auto simp: get_subscription_by_provider_id_def split: option.splits if_splits dest: find_SomeD)

lemma handle_payment_succeeded_applies:
  assumes "model_validate lib payload_data = Inr payload"
      and "get_customer_by_provider_id st (p_provider_customer_id payload) = Inr customer"
      and "parse_period_end lib now (p_current_period_end payload) = Inr period_end"
      and "get_subscription_by_provider_id st (p_provider_subscription_id payload) (cus_id customer) = Inr subscription"
      and "\<not> period_end < current_period_end subscription"
  shows "handle_payment_succeeded lib now st event payload_data =
           (Inr (),
            insert_payment
              \<lparr>pay_id = 0, pay_customer_id = cus_id customer,
               pay_subscription_id = sub_id subscription, pay_status = approved,
               pay_amount = p_amount payload, pay_currency = p_currency payload,
               provider_payment_id = str_or (p_payment_id payload) (event_id event),
               provider_invoice_id = str_or (p_invoice_id payload) [],
               pay_processed_at = Some now, pay_provider = ev_provider event\<rparr>
              (update_subscription
                 ((if sub_status subscription \<in> {pending_activation, past_due}
                   then subscription\<lparr>sub_status := active\<rparr> else subscription)
                  \<lparr>canceled_at := None, expired_at := None, current_period_end := period_end,
                    past_due_since := None, access_revoked := False, updated_at := now\<rparr>) st),
            event)"
  using assms by (simp add: handle_payment_succeeded_def Let_def)

lemma handle_invoice_payment_failed_applies:
  assumes "model_validate lib payload_data = Inr payload"
      and "get_customer_by_provider_id st (p_provider_customer_id payload) = Inr customer"
      and "parse_period_end lib now (p_current_period_end payload) = Inr period_end"
      and "get_subscription_by_provider_id st (p_provider_subscription_id payload) (cus_id customer) = Inr subscription"
      and "\<not> period_end < current_period_end subscription"
  shows "handle_invoice_payment_failed lib now st event payload_data =
           (Inr (),
            insert_payment
              \<lparr>pay_id = 0, pay_customer_id = cus_id customer,
               pay_subscription_id = sub_id subscription, pay_status = refused,
               pay_amount = p_amount payload, pay_currency = p_currency payload,
               provider_payment_id = str_or (p_payment_id payload) (event_id event),
               provider_invoice_id = str_or (p_invoice_id payload) [],
               pay_processed_at = Some now, pay_provider = ev_provider event\<rparr>
              (update_subscription
                 ((if sub_status subscription = active
                   then subscription\<lparr>sub_status := past_due, past_due_since := Some now\<rparr>
                   else subscription)\<lparr>updated_at := now\<rparr>) st),
            event)"
  using assms by (simp add: handle_invoice_payment_failed_def Let_def)

text \<open>A handler leaves the store as it is, or rewrites one stored subscription, keeping
  its key and not moving its period end back, and appends one payment.\<close>

lemma handler_shape:
  assumes "h = handle_payment_succeeded \<or> h = handle_invoice_payment_failed"
      and "h lib now st event pd = (r, st1, event1)"
  shows "st1 = st \<or>
         (\<exists>s0 s p. s0 \<in> set (subscriptions st) \<and> sub_id s = sub_id s0 \<and>
            current_period_end s0 \<le> current_period_end s \<and>
            st1 = insert_payment p (update_subscription s st))"
proof (cases "model_validate lib pd")
  case (Inl e)
  then show ?thesis using assms
    by (auto simp: handle_payment_succeeded_def handle_invoice_payment_failed_def)
next
  case v: (Inr payload)
  show ?thesis
  proof (cases "get_customer_by_provider_id st (p_provider_customer_id payload)")
    case (Inl e)
    then show ?thesis using assms v
      by (auto simp: handle_payment_succeeded_def handle_invoice_payment_failed_def)
  next
    case c: (Inr customer)
    show ?thesis
    proof (cases "parse_period_end lib now (p_current_period_end payload)")
      case (Inl e)
      then show ?thesis using assms v c
        by (auto simp: handle_payment_succeeded_def handle_invoice_payment_failed_def)
    next
      case pe: (Inr period_end)
      show ?thesis
      proof (cases "get_subscription_by_provider_id st (p_provider_subscription_id payload) (cus_id customer)")
        case (Inl e)
        then show ?thesis using assms v c pe
          by (auto simp: handle_payment_succeeded_def handle_invoice_payment_failed_def)
      next
        case s: (Inr subscription)
        then have mem: "subscription \<in> set (subscriptions st)"
          using get_subscription_by_provider_id_in_set by blast
        show ?thesis
        proof (cases "period_end < current_period_end subscription")
          case True
          from assms(1) stale_handler_sets_ignored [OF assms(1) v c pe s True, of event] assms(2)
          show ?thesis by simp
        next
          case False
          from assms(1) show ?thesis
          proof
            assume h: "h = handle_payment_succeeded"
            define s2 where "s2 = (if sub_status subscription \<in> {pending_activation, past_due}
                   then subscription\<lparr>sub_status := active\<rparr> else subscription)
                  \<lparr>canceled_at := None, expired_at := None, current_period_end := period_end,
                    past_due_since := None, access_revoked := False, updated_at := now\<rparr>"
            have "sub_id s2 = sub_id subscription" "current_period_end subscription \<le> current_period_end s2"
              using False by (simp_all add: s2_def)
            moreover have "\<exists>p. st1 = insert_payment p (update_subscription s2 st)"
              using assms(2) handle_payment_succeeded_applies [OF v c pe s False, of event]
              unfolding h s2_def by auto
            ultimately show ?thesis using mem by blast
          next
            assume h: "h = handle_invoice_payment_failed"
            define s2 where "s2 = (if sub_status subscription = active
                   then subscription\<lparr>sub_status := past_due, past_due_since := Some now\<rparr>
                   else subscription)\<lparr>updated_at := now\<rparr>"
            have "sub_id s2 = sub_id subscription" "current_period_end subscription \<le> current_period_end s2"
              by (simp_all add: s2_def)
            moreover have "\<exists>p. st1 = insert_payment p (update_subscription s2 st)"
              using assms(2) handle_invoice_payment_failed_applies [OF v c pe s False, of event]
              unfolding h s2_def by auto
            ultimately show ?thesis using mem by blast
          qed
        qed
      qed
    qed
  qed
qed

lemma dispatch_event_via_handler:
  assumes "dispatch_event lib now st event = (r, st1, event1)"
  shows "st1 = st \<or>
         (\<exists>h pd r' e'. (h = handle_payment_succeeded \<or> h = handle_invoice_payment_failed) \<and>
             h lib now st event pd = (r', st1, e'))"
proof (cases "st1 = st")
  case True
  then show ?thesis by simp
next
  case False
  with assms show ?thesis
    unfolding dispatch_event_def
    by (simp split: sum.splits json.splits option.splits prod.splits)
       (metis EVENT_HANDLERS_cases)+
qed

lemma dispatch_event_shape:
  assumes "dispatch_event lib now st event = (r, st1, event1)"
  shows "st1 = st \<or>
         (\<exists>s0 s p. s0 \<in> set (subscriptions st) \<and> sub_id s = sub_id s0 \<and>
            current_period_end s0 \<le> current_period_end s \<and>
            st1 = insert_payment p (update_subscription s st))"
  using dispatch_event_via_handler [OF assms] handler_shape by blast

section \<open>The period end never moves back\<close>

lemma period_end_monotone_refl: "period_end_monotone xs xs"
  by (simp add: period_end_monotone_def)

lemma period_end_monotone_trans:
  "period_end_monotone xs ys \<Longrightarrow> period_end_monotone ys zs \<Longrightarrow> period_end_monotone xs zs"
  unfolding period_end_monotone_def
  by (metis (no_types, lifting) dual_order.trans order_less_le_trans)

lemma period_end_monotone_append: "period_end_monotone xs (xs @ zs)"
  by (simp add: period_end_monotone_def nth_append)

lemma period_end_monotone_map:
  assumes "\<forall>x\<in>set xs. sub_id (f x) = sub_id x \<and> current_period_end x \<le> current_period_end (f x)"
  shows "period_end_monotone xs (map f xs) \<and> map sub_id (map f xs) = map sub_id xs"
  using assms by (simp add: period_end_monotone_def)

lemma distinct_key_eq:
  assumes "distinct (map sub_id xs)" and "x \<in> set xs" and "y \<in> set xs" and "sub_id x = sub_id y"
  shows "x = y"
  using assms by (meson distinct_map inj_onD)

lemma update_subscription_monotone:
  assumes "distinct (map sub_id (subscriptions st))" and "s0 \<in> set (subscriptions st)"
      and "sub_id s = sub_id s0" and "current_period_end s0 \<le> current_period_end s"
  shows "period_end_monotone (subscriptions st) (subscriptions (update_subscription s st)) \<and>
         map sub_id (subscriptions (update_subscription s st)) = map sub_id (subscriptions st)"
proof -
  have "\<forall>x\<in>set (subscriptions st).
          sub_id (if sub_id x = sub_id s then s else x) = sub_id x \<and>
          current_period_end x \<le> current_period_end (if sub_id x = sub_id s then s else x)"
  proof
    fix x assume x: "x \<in> set (subscriptions st)"
    show "sub_id (if sub_id x = sub_id s then s else x) = sub_id x \<and>
          current_period_end x \<le> current_period_end (if sub_id x = sub_id s then s else x)"
    proof (cases "sub_id x = sub_id s")
      case True
      then have "x = s0" using distinct_key_eq [OF assms(1) x assms(2)] assms(3) by simp
      then show ?thesis using True assms(4) by simp
    next
      case False
      then show ?thesis by simp
    qed
  qed
  then show ?thesis
    using period_end_monotone_map [of "subscriptions st" "\<lambda>r. if sub_id r = sub_id s then s else r"]
    by (simp add: update_subscription_def)
qed

lemma insert_payment_subscriptions [simp]:
  "subscriptions (insert_payment p st) = subscriptions st"
  by (simp add: insert_payment_def)


lemma dispatch_event_monotone:
  assumes "keys_distinct st" and "dispatch_event lib now st event = (r, st1, event1)"
  shows "period_end_monotone (subscriptions st) (subscriptions st1) \<and>
         map sub_id (subscriptions st1) = map sub_id (subscriptions st)"
  using dispatch_event_shape [OF assms(2)] assms(1) update_subscription_monotone [of st]
  unfolding keys_distinct_def
  by (auto simp: period_end_monotone_refl)


lemma continuesI_same_keys:
  "keys_distinct st \<Longrightarrow> map sub_id (subscriptions st') = map sub_id (subscriptions st) \<Longrightarrow>
   period_end_monotone (subscriptions st) (subscriptions st') \<Longrightarrow> continues st st'"
  by (simp add: continues_def keys_distinct_def)

lemma continues_same:
  "keys_distinct st \<Longrightarrow> subscriptions st' = subscriptions st \<Longrightarrow> continues st st'"
  by (simp add: continues_def keys_distinct_def period_end_monotone_refl)

lemma continues_trans: "continues a b \<Longrightarrow> continues b c \<Longrightarrow> continues a c"
  using period_end_monotone_trans by (auto simp: continues_def)

lemma continues_dispatch:
  assumes "keys_distinct st" and "dispatch_event lib now st event = (r, st1, event1)"
  shows "continues st (update_event e (st1\<lparr>metrics := m\<rparr>))"
  using dispatch_event_monotone [OF assms] assms(1)
  by (intro continuesI_same_keys) simp_all

lemma continues_commit:
  assumes "keys_distinct stored" and "continues stored session"
  shows "continues stored (case commit lib stored session of
                             Inr st2 \<Rightarrow> st2 | Inl exc \<Rightarrow> stored\<lparr>metrics := m exc\<rparr>)"
proof (cases "commit lib stored session")
  case (Inl exc)
  then show ?thesis using assms(1) by (simp add: continues_same)
next
  case (Inr st2)
  then show ?thesis using assms(2) commit_result by fastforce
qed

lemma continues_handle_existing_event:
  assumes "keys_distinct st"
  shows "continues st (snd (handle_existing_event lib now st event verified))"
proof -
  obtain r st1 event1 where d: "dispatch_event lib now st event = (r, st1, event1)"
    by (cases "dispatch_event lib now st event") auto
  have same: "continues st (update_event e (st\<lparr>metrics := m\<rparr>))" for e m
    using assms by (intro continues_same) simp_all
  have same': "continues st (st\<lparr>metrics := m\<rparr>)" "continues st st" for m
    using assms by (intro continues_same; simp)+
  have disp: "continues st (update_event e st1)" for e
    using continues_dispatch [OF assms d, of e "metrics st1"] by simp
  consider (again) "v_timestamp verified = signature_timestamp event" "v_signature verified = signature event"
        "processing_status event \<notin> {processed, ignored}" "processing_status event = failed"
    | (direct) "\<not> (v_timestamp verified = signature_timestamp event \<and> v_signature verified = signature event \<and>
        processing_status event \<notin> {processed, ignored} \<and> processing_status event = failed)"
    by blast
  then show ?thesis
  proof cases
    case direct
    then show ?thesis using same same'
      by (auto simp: handle_existing_event_def split: prod.splits)
  next
    case again
    show ?thesis
    proof (cases r)
      case (Inl e)
      obtain event2 m where mf: "mark_failed now (metrics st1) event1 (str_exc e) = (event2, m)"
        by (cases "mark_failed now (metrics st1) event1 (str_exc e)") auto
      from continues_commit [OF assms continues_dispatch [OF assms d], where lib = lib and m = "\<lambda>_. m" and e1 = event2 and m1 = m]
      show ?thesis using again d Inl
        by (simp add: handle_existing_event_def mf split: sum.splits)
    next
      case (Inr u)
      define event2 where "event2 = event1\<lparr>next_retry_at := None, needs_attention := False, error_message := None\<rparr>"
      obtain event3 m3 where mf: "\<And>exc. mark_failed now (metrics st1) event2 (str_exc exc) = (event3 exc, m3 exc)"
        by (simp add: mark_failed_eq)
      from continues_commit [OF assms disp, where lib = lib and m = m3 and e1 = event2]
      show ?thesis using again d Inr
        by (simp add: handle_existing_event_def Let_def event2_def [symmetric] mf split: sum.splits)
    qed
  qed
qed

lemma continues_process_webhook:
  assumes "keys_distinct st"
  shows "continues st (snd (process_webhook lib now st provider webhook verified))"
proof (cases "get_existing_event st provider (w_event_id webhook)")
  case (Some existing)
  then show ?thesis using continues_handle_existing_event [OF assms]
    by (simp add: process_webhook_def)
next
  case None
  define event where "event = new_webhook_event now st provider webhook verified"
  define st0 where "st0 = st\<lparr>webhook_events := webhook_events st @ [event]\<rparr>"
  have k0: "keys_distinct st0" and c0: "continues st st0"
    using assms by (simp_all add: st0_def keys_distinct_def continues_def period_end_monotone_refl)
  obtain r st1 event1 where d: "dispatch_event lib now st0 event = (r, st1, event1)"
    by (cases "dispatch_event lib now st0 event") auto
  have step: "continues st (update_event e (st1\<lparr>metrics := m\<rparr>))" for e m
    using continues_trans [OF c0 continues_dispatch [OF k0 d]] .
  show ?thesis
  proof (cases r)
    case (Inl e)
    obtain event2 m where mf: "mark_failed now (metrics st1) event1 (str_exc e) = (event2, m)"
      by (cases "mark_failed now (metrics st1) event1 (str_exc e)") auto
    from continues_commit [OF assms step, where lib = lib and m = "\<lambda>_. m" and e1 = event2 and m1 = m]
    show ?thesis using d Inl
      by (simp add: process_webhook_first [OF None] Let_def event_def [symmetric]
            st0_def [symmetric] mf split: sum.splits)
  next
    case (Inr u)
    define event2 where "event2 = event1\<lparr>next_retry_at := None, needs_attention := False\<rparr>"
    define m where "m = count_dispatched event1 (metrics st1)"
    obtain event3 m3 where mf: "\<And>exc. mark_failed now m event2 (str_exc exc) = (event3 exc, m3 exc)"
      by (simp add: mark_failed_eq)
    from continues_commit [OF assms step, where lib = lib and m = m3 and e1 = event2 and m1 = m]
    show ?thesis using d Inr
      by (simp add: process_webhook_first [OF None] Let_def event_def [symmetric]
            st0_def [symmetric] event2_def [symmetric] m_def [symmetric] mf split: sum.splits)
  qed
qed

lemma continues_retry_loop:
  "keys_distinct st \<Longrightarrow> continues st (fst (retry_loop lib now events st ps fs))"
proof (induction events arbitrary: st ps fs)
  case Nil
  then show ?case by (simp add: continues_same)
next
  case (Cons event events)
  obtain r st1 event1 where d: "dispatch_event lib now st event = (r, st1, event1)"
    by (cases "dispatch_event lib now st event") auto
  have step: "continues st (update_event e (st1\<lparr>metrics := m\<rparr>))" for e m
    by (rule continues_dispatch [OF Cons.prems d])
  then have k: "keys_distinct (update_event e (st1\<lparr>metrics := m\<rparr>))" for e m
    by (simp add: continues_def)
  show ?case
    using continues_trans [OF step Cons.IH [OF k]] d
    by (cases r) (simp_all add: Let_def split: prod.splits)
qed

lemma continues_retry_failed_webhooks:
  "keys_distinct st \<Longrightarrow> continues st (snd (retry_failed_webhooks lib now st limit))"
  using continues_retry_loop [of st lib now "retry_candidates now limit st" "[]" "[]"]
  by (auto simp: retry_failed_webhooks_def Let_def split: prod.splits)

lemma continues_reprocess_webhook_event:
  assumes "keys_distinct st"
  shows "continues st (snd (reprocess_webhook_event lib now st eid))"
proof (cases "get_webhook_event st eid None")
  case (Inl e)
  then show ?thesis using assms by (simp add: reprocess_webhook_event_def continues_same)
next
  case (Inr event)
  obtain r st1 event1 where d: "dispatch_event lib now st event = (r, st1, event1)"
    by (cases "dispatch_event lib now st event") auto
  have "continues st (update_event e (st1\<lparr>metrics := m\<rparr>))" for e m
    by (rule continues_dispatch [OF assms d])
  then show ?thesis using Inr d
    by (cases r) (simp_all add: reprocess_webhook_event_def Let_def split: prod.splits)
qed

lemma create_subscription_subscriptions:
  "subscriptions (snd (create_subscription now hex1 hex2 st subscription_in)) = subscriptions st \<or>
   (\<exists>s. sub_id s = next_id (map sub_id (subscriptions st)) \<and>
        subscriptions (snd (create_subscription now hex1 hex2 st subscription_in)) = subscriptions st @ [s])"
  by (auto simp: create_subscription_def get_or_create_customer_by_email_def
        ensure_provider_customer_id_def update_customer_def Let_def
      split: option.splits sum.splits prod.splits if_splits)

lemma continues_create_subscription:
  assumes "keys_distinct st"
  shows "continues st (snd (create_subscription now hex1 hex2 st subscription_in))"
proof -
  let ?st' = "snd (create_subscription now hex1 hex2 st subscription_in)"
  from create_subscription_subscriptions [of now hex1 hex2 st subscription_in]
  show ?thesis
  proof
    assume "subscriptions ?st' = subscriptions st"
    then show ?thesis using assms by (rule continues_same [rotated])
  next
    assume "\<exists>s. sub_id s = next_id (map sub_id (subscriptions st)) \<and> subscriptions ?st' = subscriptions st @ [s]"
    then obtain s where s: "sub_id s = next_id (map sub_id (subscriptions st))"
      and eq: "subscriptions ?st' = subscriptions st @ [s]" by blast
    have "sub_id s \<notin> set (map sub_id (subscriptions st))"
      using next_id_fresh [of "sub_id s" "map sub_id (subscriptions st)"] s by auto
    then have "keys_distinct ?st'" using assms by (simp add: keys_distinct_def eq)
    then show ?thesis by (simp add: continues_def eq period_end_monotone_append)
  qed
qed

lemma continues_map:
  assumes "keys_distinct st"
      and "\<forall>x\<in>set (subscriptions st). sub_id (f x) = sub_id x \<and> current_period_end x \<le> current_period_end (f x)"
      and "subscriptions st' = map f (subscriptions st)"
  shows "continues st st'"
  using period_end_monotone_map [OF assms(2)] assms(1,3)
  by (intro continuesI_same_keys) simp_all

lemma continues_enforce_grace_period:
  "keys_distinct st \<Longrightarrow> continues st (snd (enforce_grace_period now st))"
  by (rule continues_map [where f = "\<lambda>subscription.
                  if grace_selected now subscription
                  then subscription\<lparr>sub_status := canceled, canceled_at := Some now,
                         access_revoked := True, updated_at := now\<rparr>
                  else subscription"])
     (simp_all add: enforce_grace_period_def)

lemma continues_expire_subscriptions:
  "keys_distinct st \<Longrightarrow> continues st (snd (expire_subscriptions now st))"
  by (rule continues_map [where f = "\<lambda>subscription.
                  if expire_selected now subscription
                  then (if cancel_at_period_end subscription
                        then subscription\<lparr>sub_status := canceled, canceled_at := Some now,
                               access_revoked := True\<rparr>
                        else subscription\<lparr>sub_status := expired, expired_at := Some now\<rparr>)
                       \<lparr>updated_at := now\<rparr>
                  else subscription"])
     (simp_all add: expire_subscriptions_def)

lemma continues_set_subscription_cancel_at_period_end:
  assumes "keys_distinct st"
  shows "continues st (snd (set_subscription_cancel_at_period_end now st sid flag))"
proof (cases "find (\<lambda>s. sub_id s = sid) (subscriptions st)")
  case None
  then show ?thesis using assms
    by (simp add: set_subscription_cancel_at_period_end_def continues_same)
next
  case (Some subscription)
  then have mem: "subscription \<in> set (subscriptions st)" using find_SomeD by fastforce
  have "period_end_monotone (subscriptions st)
          (subscriptions (update_subscription (subscription\<lparr>cancel_at_period_end := flag, updated_at := now\<rparr>) st)) \<and>
        map sub_id (subscriptions (update_subscription (subscription\<lparr>cancel_at_period_end := flag, updated_at := now\<rparr>) st))
          = map sub_id (subscriptions st)"
    by (rule update_subscription_monotone [OF _ mem]) (use assms in \<open>simp_all add: keys_distinct_def\<close>)
  then show ?thesis using Some assms
    by (simp add: set_subscription_cancel_at_period_end_def Let_def continuesI_same_keys)
qed

lemma continues_apply_operation:
  "keys_distinct st \<Longrightarrow> continues st (apply_operation lib st op)"
  by (cases op)
     (simp_all add: continues_create_subscription continues_process_webhook
        continues_retry_failed_webhooks continues_reprocess_webhook_event
        continues_enforce_grace_period continues_expire_subscriptions
        continues_set_subscription_cancel_at_period_end)

lemma continues_run: "keys_distinct st \<Longrightarrow> continues st (run lib st ops)"
proof (induction ops arbitrary: st)
  case Nil
  then show ?case by (simp add: run_def continues_same)
next
  case (Cons op ops)
  have step: "continues st (apply_operation lib st op)"
    by (rule continues_apply_operation [OF Cons.prems])
  then have "keys_distinct (apply_operation lib st op)" by (simp add: continues_def)
  then have "continues (apply_operation lib st op) (run lib (apply_operation lib st op) ops)"
    by (rule Cons.IH)
  with step show ?case using continues_trans by (simp add: run_def)
qed

lemma run_append: "run lib st (ops1 @ ops2) = run lib (run lib st ops1) ops2"
  by (simp add: run_def)

text \<open>
  C7. Along every history from the empty store, the subscription table after more
  operations continues the table before them: each subscription is still stored under
  its key and its \<open>current_period_end\<close> is at least what it was. The operations are
  subscription creation, webhook deliveries (first deliveries, replays and re-dispatches
  of failed events), the retry sweep, the admin reprocess, the grace and expiry sweeps
  and the cancel-at-period-end flag.
\<close>

theorem current_period_end_never_decreases:
  "period_end_monotone (subscriptions (run lib empty_store ops1))
     (subscriptions (run lib empty_store (ops1 @ ops2)))"
proof -
  have "keys_distinct empty_store" by (simp add: keys_distinct_def empty_store_def)
  then have "keys_distinct (run lib empty_store ops1)"
    using continues_run [of empty_store lib ops1] by (simp add: continues_def)
  then have "continues (run lib empty_store ops1) (run lib (run lib empty_store ops1) ops2)"
    by (rule continues_run)
  then show ?thesis by (simp add: continues_def run_append)
qed

theorem current_period_end_never_decreases_witness:
  "length (subscriptions (run sample_lib empty_store [op_create, op_pay_1])) = 1 \<and>
   sub_id (subscriptions (run sample_lib empty_store ([op_create, op_pay_1] @ [op_stale, op_fail_1, op_grace, op_pay_2])) ! 0)
     = sub_id (subscriptions (run sample_lib empty_store [op_create, op_pay_1]) ! 0) \<and>
   current_period_end (subscriptions (run sample_lib empty_store [op_create, op_pay_1]) ! 0)
     \<le> current_period_end (subscriptions (run sample_lib empty_store ([op_create, op_pay_1] @ [op_stale, op_fail_1, op_grace, op_pay_2])) ! 0) \<and>
   current_period_end (subscriptions (run sample_lib empty_store [op_create, op_pay_1]) ! 0) = 1702592000000000 \<and>
   current_period_end (subscriptions (run sample_lib empty_store ([op_create, op_pay_1] @ [op_stale])) ! 0) = 1702592000000000"
proof -
  have l: "length (subscriptions (run sample_lib empty_store [op_create, op_pay_1])) = 1"
    by code_simp
  have a: "current_period_end (subscriptions (run sample_lib empty_store [op_create, op_pay_1]) ! 0) = 1702592000000000"
    by code_simp
  have b: "current_period_end (subscriptions (run sample_lib empty_store ([op_create, op_pay_1] @ [op_stale])) ! 0) = 1702592000000000"
    by code_simp
  from current_period_end_never_decreases [of sample_lib "[op_create, op_pay_1]" "[op_stale, op_fail_1, op_grace, op_pay_2]"] l a b
  show ?thesis unfolding period_end_monotone_def by simp
qed

section \<open>Applied events\<close>

lemma dispatch_event_applies:
  assumes "json_loads lib (payload_raw event) = Inr (JObj kvs)"
      and "(case map_of kvs ''payload_json'' of None \<Rightarrow> JObj kvs | Some v \<Rightarrow> v) = JObj payload_data"
      and "event_type event = ''payment.succeeded'' \<or> event_type event = ''invoice.payment_failed''"
      and "model_validate lib payload_data = Inr payload"
      and "get_customer_by_provider_id st (p_provider_customer_id payload) = Inr customer"
      and "parse_period_end lib now (p_current_period_end payload) = Inr period_end"
      and "get_subscription_by_provider_id st (p_provider_subscription_id payload) (cus_id customer) = Inr subscription"
      and "\<not> period_end < current_period_end subscription"
  shows "\<exists>s p. dispatch_event lib now st event =
                 (Inr (), insert_payment p (update_subscription s st),
                  event\<lparr>processing_status := processed, processed_at := Some now\<rparr>) \<and>
               provider_payment_id p = str_or (p_payment_id payload) (event_id event) \<and>
               pay_subscription_id p = sub_id subscription \<and>
               pay_amount p = p_amount payload \<and>
               sub_id s = sub_id subscription"
proof -
  from assms(3) show ?thesis
  proof
    assume t: "event_type event = ''payment.succeeded''"
    then have h: "EVENT_HANDLERS (event_type event) = Some handle_payment_succeeded"
      by (simp add: EVENT_HANDLERS_def)
    define P where "P = \<lparr>pay_id = 0, pay_customer_id = cus_id customer,
               pay_subscription_id = sub_id subscription, pay_status = approved,
               pay_amount = p_amount payload, pay_currency = p_currency payload,
               provider_payment_id = str_or (p_payment_id payload) (event_id event),
               provider_invoice_id = str_or (p_invoice_id payload) [],
               pay_processed_at = Some now, pay_provider = ev_provider event\<rparr>"
    define S where "S = (if sub_status subscription \<in> {pending_activation, past_due}
                   then subscription\<lparr>sub_status := active\<rparr> else subscription)
                  \<lparr>canceled_at := None, expired_at := None, current_period_end := period_end,
                    past_due_since := None, access_revoked := False, updated_at := now\<rparr>"
    have hh: "handle_payment_succeeded lib now st event payload_data =
                (Inr (), insert_payment P (update_subscription S st), event)"
      unfolding P_def S_def by (rule handle_payment_succeeded_applies [OF assms(4-8)])
    have "dispatch_event lib now st event =
            (Inr (), insert_payment P (update_subscription S st),
             event\<lparr>processing_status := processed, processed_at := Some now\<rparr>)"
      using assms(1,2) h hh by (simp add: dispatch_event_def)
    moreover have "provider_payment_id P = str_or (p_payment_id payload) (event_id event)"
      "pay_subscription_id P = sub_id subscription" "pay_amount P = p_amount payload"
      by (simp_all add: P_def)
    moreover have "sub_id S = sub_id subscription" by (simp add: S_def)
    ultimately show ?thesis by blast
  next
    assume t: "event_type event = ''invoice.payment_failed''"
    then have h: "EVENT_HANDLERS (event_type event) = Some handle_invoice_payment_failed"
      by (simp add: EVENT_HANDLERS_def)
    define P where "P = \<lparr>pay_id = 0, pay_customer_id = cus_id customer,
               pay_subscription_id = sub_id subscription, pay_status = refused,
               pay_amount = p_amount payload, pay_currency = p_currency payload,
               provider_payment_id = str_or (p_payment_id payload) (event_id event),
               provider_invoice_id = str_or (p_invoice_id payload) [],
               pay_processed_at = Some now, pay_provider = ev_provider event\<rparr>"
    define S where "S = (if sub_status subscription = active
                   then subscription\<lparr>sub_status := past_due, past_due_since := Some now\<rparr>
                   else subscription)\<lparr>updated_at := now\<rparr>"
    have hh: "handle_invoice_payment_failed lib now st event payload_data =
                (Inr (), insert_payment P (update_subscription S st), event)"
      unfolding P_def S_def by (rule handle_invoice_payment_failed_applies [OF assms(4-8)])
    have "dispatch_event lib now st event =
            (Inr (), insert_payment P (update_subscription S st),
             event\<lparr>processing_status := processed, processed_at := Some now\<rparr>)"
      using assms(1,2) h hh by (simp add: dispatch_event_def)
    moreover have "provider_payment_id P = str_or (p_payment_id payload) (event_id event)"
      "pay_subscription_id P = sub_id subscription" "pay_amount P = p_amount payload"
      by (simp_all add: P_def)
    moreover have "sub_id S = sub_id subscription" by (simp add: S_def)
    ultimately show ?thesis by blast
  qed
qed

lemma lookups_ignore_events [simp]:
  "get_customer_by_provider_id (st\<lparr>webhook_events := es\<rparr>) pcid = get_customer_by_provider_id st pcid"
  "get_subscription_by_provider_id (st\<lparr>webhook_events := es\<rparr>) psid cid = get_subscription_by_provider_id st psid cid"
  by (simp_all add: get_customer_by_provider_id_def get_subscription_by_provider_id_def)

lemma applied_tables [simp]:
  "webhook_events (insert_payment p (update_subscription s st)) = webhook_events st"
  "customers (insert_payment p (update_subscription s st)) = customers st"
  "metrics (insert_payment p (update_subscription s st)) = metrics st"
  "payments (insert_payment p (update_subscription s st)) =
     payments st @ [p\<lparr>pay_id := next_id (map pay_id (payments st))\<rparr>]"
  by (simp_all add: insert_payment_def update_subscription_def)

lemma update_event_last:
  assumes "webhook_events st = es @ [e]" and "ev_id e = next_id (map ev_id es)" and "ev_id e' = ev_id e"
  shows "webhook_events (update_event e' st) = es @ [e']"
proof -
  have "\<And>r. r \<in> set es \<Longrightarrow> ev_id r \<noteq> ev_id e'"
    using next_id_fresh [of _ "map ev_id es"] assms(2,3) by fastforce
  then have "map (\<lambda>r. if ev_id r = ev_id e' then e' else r) es = es"
    by (simp add: map_idI)
  then show ?thesis using assms by (simp add: update_event_def)
qed

text \<open>A first delivery of an event that a handler applies and the store takes.\<close>

lemma first_delivery_applies:
  assumes "get_existing_event st provider (w_event_id webhook) = None"
      and "json_loads lib (raw_body verified) = Inr (JObj kvs)"
      and "(case map_of kvs ''payload_json'' of None \<Rightarrow> JObj kvs | Some v \<Rightarrow> v) = JObj payload_data"
      and "w_event_type webhook = ''payment.succeeded'' \<or> w_event_type webhook = ''invoice.payment_failed''"
      and "model_validate lib payload_data = Inr payload"
      and "get_customer_by_provider_id st (p_provider_customer_id payload) = Inr customer"
      and "parse_period_end lib now (p_current_period_end payload) = Inr period_end"
      and "get_subscription_by_provider_id st (p_provider_subscription_id payload) (cus_id customer) = Inr subscription"
      and "\<not> period_end < current_period_end subscription"
      and "bind_integer lib (p_amount payload) = None"
  shows "\<exists>event st1 p s.
           process_webhook lib now st provider webhook verified = (Inr event, st1) \<and>
           event = \<lparr>ev_id = next_id (map ev_id (webhook_events st)), ev_provider = provider,
                    event_id = w_event_id webhook, event_type = w_event_type webhook,
                    payload_raw = raw_body verified, signature = v_signature verified,
                    signature_timestamp = v_timestamp verified, received_at = now,
                    processed_at = Some now, attempt_count = 1, next_retry_at = None,
                    needs_attention = False, processing_status = processed, error_message = None\<rparr> \<and>
           webhook_events st1 = webhook_events st @ [event] \<and>
           payments st1 = payments st @ [p] \<and>
           provider_payment_id p = str_or (p_payment_id payload) (w_event_id webhook) \<and>
           pay_subscription_id p = sub_id subscription \<and>
           subscriptions st1 = subscriptions (update_subscription s st) \<and>
           sub_id s = sub_id subscription \<and>
           customers st1 = customers st \<and>
           webhook_replayed (metrics st1) = webhook_replayed (metrics st)"
proof -
  define event0 where "event0 = new_webhook_event now st provider webhook verified"
  define st0 where "st0 = st\<lparr>webhook_events := webhook_events st @ [event0]\<rparr>"
  have a1: "json_loads lib (payload_raw event0) = Inr (JObj kvs)"
    using assms(2) by (simp add: event0_def new_webhook_event_def)
  have a3: "event_type event0 = ''payment.succeeded'' \<or> event_type event0 = ''invoice.payment_failed''"
    using assms(4) by (simp add: event0_def new_webhook_event_def)
  have a5: "get_customer_by_provider_id st0 (p_provider_customer_id payload) = Inr customer"
    using assms(6) by (simp add: st0_def)
  have a7: "get_subscription_by_provider_id st0 (p_provider_subscription_id payload) (cus_id customer) = Inr subscription"
    using assms(8) by (simp add: st0_def)
  from dispatch_event_applies [OF a1 assms(3) a3 assms(5) a5 assms(7) a7 assms(9)]
  obtain s p where d: "dispatch_event lib now st0 event0 =
                 (Inr (), insert_payment p (update_subscription s st0),
                  event0\<lparr>processing_status := processed, processed_at := Some now\<rparr>)"
    and p: "provider_payment_id p = str_or (p_payment_id payload) (event_id event0)"
           "pay_subscription_id p = sub_id subscription"
           "pay_amount p = p_amount payload"
    and s: "sub_id s = sub_id subscription"
    by blast
  define event where "event = event0\<lparr>processing_status := processed, processed_at := Some now,
                                      next_retry_at := None, needs_attention := False\<rparr>"
  define m where "m = count_dispatched (event0\<lparr>processing_status := processed, processed_at := Some now\<rparr>) (metrics st0)"
  define st1 where "st1 = update_event event ((insert_payment p (update_subscription s st0))\<lparr>metrics := m\<rparr>)"
  have pay: "payments st1 = payments st @ [p\<lparr>pay_id := next_id (map pay_id (payments st))\<rparr>]"
    by (simp add: st1_def st0_def)
  have c: "commit lib st st1 = Inr st1"
    by (rule commit_one_payment [OF pay]) (simp add: p assms(10))
  have pw: "process_webhook lib now st provider webhook verified = (Inr event, st1)"
    using c
    by (simp add: process_webhook_first [OF assms(1)] Let_def event0_def [symmetric]
          st0_def [symmetric] d event_def st1_def m_def)
  have ev: "webhook_events st1 = webhook_events st @ [event]"
    unfolding st1_def
    by (rule update_event_last [where e = event0])
       (simp_all add: st0_def event0_def event_def new_webhook_event_def)
  have subs: "subscriptions st1 = subscriptions (update_subscription s st)"
    by (simp add: st1_def st0_def update_subscription_def)
  have cus: "customers st1 = customers st" by (simp add: st1_def st0_def)
  have rep: "webhook_replayed (metrics st1) = webhook_replayed (metrics st)"
    by (simp add: st1_def m_def count_dispatched_def st0_def)
  have evx: "event = \<lparr>ev_id = next_id (map ev_id (webhook_events st)), ev_provider = provider,
                    event_id = w_event_id webhook, event_type = w_event_type webhook,
                    payload_raw = raw_body verified, signature = v_signature verified,
                    signature_timestamp = v_timestamp verified, received_at = now,
                    processed_at = Some now, attempt_count = 1, next_retry_at = None,
                    needs_attention = False, processing_status = processed, error_message = None\<rparr>"
    by (simp add: event_def event0_def new_webhook_event_def)
  have p': "provider_payment_id (p\<lparr>pay_id := next_id (map pay_id (payments st))\<rparr>) = str_or (p_payment_id payload) (w_event_id webhook)"
      "pay_subscription_id (p\<lparr>pay_id := next_id (map pay_id (payments st))\<rparr>) = sub_id subscription"
    using p by (simp_all add: event0_def new_webhook_event_def)
  show ?thesis
    using pw evx ev pay p' subs s cus rep by blast
qed

text \<open>A first delivery of an event that a handler applies and the store refuses: the
  counters move, the call raises what the second commit raises, and no table changes.\<close>

lemma first_delivery_refused:
  assumes "get_existing_event st provider (w_event_id webhook) = None"
      and "json_loads lib (raw_body verified) = Inr (JObj kvs)"
      and "(case map_of kvs ''payload_json'' of None \<Rightarrow> JObj kvs | Some v \<Rightarrow> v) = JObj payload_data"
      and "w_event_type webhook = ''payment.succeeded'' \<or> w_event_type webhook = ''invoice.payment_failed''"
      and "model_validate lib payload_data = Inr payload"
      and "get_customer_by_provider_id st (p_provider_customer_id payload) = Inr customer"
      and "parse_period_end lib now (p_current_period_end payload) = Inr period_end"
      and "get_subscription_by_provider_id st (p_provider_subscription_id payload) (cus_id customer) = Inr subscription"
      and "\<not> period_end < current_period_end subscription"
      and "bind_integer lib (p_amount payload) = Some exc"
  shows "process_webhook lib now st provider webhook verified =
           (Inl (pending_rollback lib exc),
            st\<lparr>metrics := (metrics st)\<lparr>webhook_processed := webhook_processed (metrics st) + 1,
                                       webhook_failed := webhook_failed (metrics st) + 1\<rparr>\<rparr>)"
proof -
  define event0 where "event0 = new_webhook_event now st provider webhook verified"
  define st0 where "st0 = st\<lparr>webhook_events := webhook_events st @ [event0]\<rparr>"
  have a1: "json_loads lib (payload_raw event0) = Inr (JObj kvs)"
    using assms(2) by (simp add: event0_def new_webhook_event_def)
  have a3: "event_type event0 = ''payment.succeeded'' \<or> event_type event0 = ''invoice.payment_failed''"
    using assms(4) by (simp add: event0_def new_webhook_event_def)
  have a5: "get_customer_by_provider_id st0 (p_provider_customer_id payload) = Inr customer"
    using assms(6) by (simp add: st0_def)
  have a7: "get_subscription_by_provider_id st0 (p_provider_subscription_id payload) (cus_id customer) = Inr subscription"
    using assms(8) by (simp add: st0_def)
  from dispatch_event_applies [OF a1 assms(3) a3 assms(5) a5 assms(7) a7 assms(9)]
  obtain s p where d: "dispatch_event lib now st0 event0 =
                 (Inr (), insert_payment p (update_subscription s st0),
                  event0\<lparr>processing_status := processed, processed_at := Some now\<rparr>)"
    and p: "pay_amount p = p_amount payload"
    by blast
  define event where "event = event0\<lparr>processing_status := processed, processed_at := Some now,
                                      next_retry_at := None, needs_attention := False\<rparr>"
  define m where "m = count_dispatched (event0\<lparr>processing_status := processed, processed_at := Some now\<rparr>) (metrics st0)"
  define st1 where "st1 = update_event event ((insert_payment p (update_subscription s st0))\<lparr>metrics := m\<rparr>)"
  have pay: "payments st1 = payments st @ [p\<lparr>pay_id := next_id (map pay_id (payments st))\<rparr>]"
    by (simp add: st1_def st0_def)
  have c: "commit lib st st1 = Inl exc"
    by (rule commit_refused [OF pay]) (simp add: p assms(10))
  have m': "m = (metrics st)\<lparr>webhook_processed := webhook_processed (metrics st) + 1\<rparr>"
    by (simp add: m_def count_dispatched_def st0_def)
  have c': "commit lib st
              (update_event
                 (event0\<lparr>processing_status := processed, processed_at := Some now,
                    next_retry_at := None, needs_attention := False\<rparr>)
                 ((insert_payment p (update_subscription s st0))
                    \<lparr>metrics := count_dispatched
                       (event0\<lparr>processing_status := processed, processed_at := Some now\<rparr>)
                       (metrics st0)\<rparr>)) = Inl exc"
    using c by (simp add: st1_def event_def m_def)
  have "process_webhook lib now st provider webhook verified =
          (Inl (pending_rollback lib exc),
           st\<lparr>metrics := snd (mark_failed now m event (str_exc exc))\<rparr>)"
    unfolding process_webhook_first [OF assms(1)] Let_def event0_def [symmetric] st0_def [symmetric]
    by (simp add: d c' event_def m_def split: prod.splits)
  then show ?thesis
    by (simp add: mark_failed_eq m')
qed

lemma sample_payload_validates:
  "model_validate sample_lib (sample_payload k) =
     Inr \<lparr>p_provider_customer_id = ''cus_0123456789abcdef'',
          p_provider_subscription_id = ''sub_fedcba9876543210'', p_amount = 5000,
          p_currency = ''BRL'', p_current_period_end = PeriodNum (PyInt k),
          p_payment_id = Some ''pay_ok'', p_invoice_id = None\<rparr>"
  by (simp add: sample_lib_def sample_validate_def sample_payload_def)

lemma sample_store_lookups:
  "get_customer_by_provider_id (run sample_lib empty_store [op_create, op_pay_1]) ''cus_0123456789abcdef''
     = Inr sample_customer"
  "get_subscription_by_provider_id (run sample_lib empty_store [op_create, op_pay_1]) ''sub_fedcba9876543210'' 1
     = Inr sample_subscription"
  by code_simp+

section \<open>Identical deliveries\<close>

lemma replay_unchanged:
  assumes "get_existing_event s provider (w_event_id webhook) = Some ev"
      and "signature_timestamp ev = v_timestamp verified"
      and "signature ev = v_signature verified"
      and "processing_status ev = processed"
  shows "process_webhook lib t s provider webhook verified =
           (Inr ev, s\<lparr>metrics := (metrics s)\<lparr>webhook_replayed := webhook_replayed (metrics s) + 1\<rparr>\<rparr>)"
  using assms by (simp add: process_webhook_def handle_existing_event_def)

lemma get_existing_event_metrics [simp]:
  "get_existing_event (s\<lparr>metrics := m\<rparr>) provider eid = get_existing_event s provider eid"
  by (simp add: get_existing_event_def)

lemma deliver_all_replays:
  assumes "get_existing_event s provider (w_event_id webhook) = Some ev"
      and "signature_timestamp ev = v_timestamp verified"
      and "signature ev = v_signature verified"
      and "processing_status ev = processed"
  shows "deliver_all lib provider webhook verified s nows =
           (replicate (length nows) (Inr ev),
            s\<lparr>metrics := (metrics s)\<lparr>webhook_replayed := webhook_replayed (metrics s) + length nows\<rparr>\<rparr>)"
  using assms(1)
proof (induction nows arbitrary: s)
  case Nil
  then show ?case by simp
next
  case (Cons t ts)
  let ?s1 = "s\<lparr>metrics := (metrics s)\<lparr>webhook_replayed := webhook_replayed (metrics s) + 1\<rparr>\<rparr>"
  have step: "process_webhook lib t s provider webhook verified = (Inr ev, ?s1)"
    by (rule replay_unchanged [OF Cons.prems assms(2-4)])
  have "get_existing_event ?s1 provider (w_event_id webhook) = Some ev"
    using Cons.prems by simp
  from Cons.IH [OF this] show ?case by (simp add: step)
qed

lemma find_append_None: "find P xs = None \<Longrightarrow> find P (xs @ ys) = find P ys"
  by (induction xs) (auto split: if_splits)

lemma filter_find_None: "find P xs = None \<Longrightarrow> filter P xs = []"
  by (induction xs) (auto split: if_splits)

lemma refused_amount_stores_nothing:
  "webhook_events (run sample_lib empty_store [op_create, op_pay_1, op_huge])
     = webhook_events (run sample_lib empty_store [op_create, op_pay_1]) \<and>
   payments (run sample_lib empty_store [op_create, op_pay_1, op_huge])
     = payments (run sample_lib empty_store [op_create, op_pay_1]) \<and>
   subscriptions (run sample_lib empty_store [op_create, op_pay_1, op_huge])
     = subscriptions (run sample_lib empty_store [op_create, op_pay_1])"
  by code_simp

text \<open>
  C8. A valid event is one the first delivery applies and commits: a
  \<open>payment.succeeded\<close> or \<open>invoice.payment_failed\<close> delivery, not stored before, whose body
  and payload parse, whose customer and subscription resolve, whose period end is not
  stale and whose amount the INTEGER column of the store takes (for an amount it
  refuses, the delivery raises and stores neither the event nor a payment:
  \<open>first_delivery_refused\<close>). Delivered \<open>N = 1 + length nows\<close> times with the same body,
  signature and timestamp, every call returns the same processed event, the store holds
  exactly one event row for its \<open>(provider, event_id)\<close> and one payment row more than
  before the first delivery, the subscriptions are those the first delivery left, and
  \<open>webhook_replayed\<close> has grown by one for each delivery after the first.
\<close>

theorem identical_deliveries_idempotent:
  assumes "get_existing_event st provider (w_event_id webhook) = None"
      and "json_loads lib (raw_body verified) = Inr (JObj kvs)"
      and "(case map_of kvs ''payload_json'' of None \<Rightarrow> JObj kvs | Some v \<Rightarrow> v) = JObj payload_data"
      and "w_event_type webhook = ''payment.succeeded'' \<or> w_event_type webhook = ''invoice.payment_failed''"
      and "model_validate lib payload_data = Inr payload"
      and "get_customer_by_provider_id st (p_provider_customer_id payload) = Inr customer"
      and "parse_period_end lib now (p_current_period_end payload) = Inr period_end"
      and "get_subscription_by_provider_id st (p_provider_subscription_id payload) (cus_id customer) = Inr subscription"
      and "\<not> period_end < current_period_end subscription"
      and "bind_integer lib (p_amount payload) = None"
      and "deliver_all lib provider webhook verified st (now # nows) = (rs, st')"
  shows "\<exists>event p.
           rs = replicate (Suc (length nows)) (Inr event) \<and>
           processing_status event = processed \<and>
           filter (\<lambda>e. ev_provider e = provider \<and> event_id e = w_event_id webhook) (webhook_events st') = [event] \<and>
           payments st' = payments st @ [p] \<and>
           subscriptions st' = subscriptions (snd (process_webhook lib now st provider webhook verified)) \<and>
           webhook_replayed (metrics st') = webhook_replayed (metrics st) + length nows"
proof -
  from first_delivery_applies [OF assms(1-10)]
  obtain event st1 p where pw: "process_webhook lib now st provider webhook verified = (Inr event, st1)"
    and ev: "event = \<lparr>ev_id = next_id (map ev_id (webhook_events st)), ev_provider = provider,
                    event_id = w_event_id webhook, event_type = w_event_type webhook,
                    payload_raw = raw_body verified, signature = v_signature verified,
                    signature_timestamp = v_timestamp verified, received_at = now,
                    processed_at = Some now, attempt_count = 1, next_retry_at = None,
                    needs_attention = False, processing_status = processed, error_message = None\<rparr>"
    and evs: "webhook_events st1 = webhook_events st @ [event]"
    and pay: "payments st1 = payments st @ [p]"
    and rep: "webhook_replayed (metrics st1) = webhook_replayed (metrics st)"
    by blast
  have none: "find (\<lambda>e. ev_provider e = provider \<and> event_id e = w_event_id webhook) (webhook_events st) = None"
    using assms(1) by (simp add: get_existing_event_def)
  have key: "ev_provider event = provider \<and> event_id event = w_event_id webhook"
    by (simp add: ev)
  have found: "get_existing_event st1 provider (w_event_id webhook) = Some event"
    using find_append_None [OF none, of "[event]"] key by (simp add: get_existing_event_def evs)
  have more: "deliver_all lib provider webhook verified st1 nows =
           (replicate (length nows) (Inr event),
            st1\<lparr>metrics := (metrics st1)\<lparr>webhook_replayed := webhook_replayed (metrics st1) + length nows\<rparr>\<rparr>)"
    by (rule deliver_all_replays [OF found]) (simp_all add: ev)
  from assms(11) have rs: "rs = replicate (Suc (length nows)) (Inr event)"
    and st': "st' = st1\<lparr>metrics := (metrics st1)\<lparr>webhook_replayed := webhook_replayed (metrics st1) + length nows\<rparr>\<rparr>"
    by (simp_all add: pw more)
  have one: "filter (\<lambda>e. ev_provider e = provider \<and> event_id e = w_event_id webhook) (webhook_events st') = [event]"
    using filter_find_None [OF none] key by (simp add: st' evs)
  have "processing_status event = processed" by (simp add: ev)
  moreover have "payments st' = payments st @ [p]" by (simp add: st' pay)
  moreover have "subscriptions st' = subscriptions (snd (process_webhook lib now st provider webhook verified))"
    by (simp add: st' pw)
  moreover have "webhook_replayed (metrics st') = webhook_replayed (metrics st) + length nows"
    by (simp add: st' rep)
  ultimately show ?thesis using rs one by blast
qed

theorem identical_deliveries_idempotent_witness:
  "get_existing_event (run sample_lib empty_store [op_create, op_pay_1]) ''test''
     (w_event_id (sample_webhook ''evt_pay_2'' ''payment.succeeded'' 1705270400)) = None \<and>
   \<not> 1705270400000000 < current_period_end sample_subscription \<and>
   length (fst (deliver_all sample_lib ''test'' (sample_webhook ''evt_pay_2'' ''payment.succeeded'' 1705270400)
            (sample_verified ''body_pay_2'' ''sig_pay_2'' 1700200100)
            (run sample_lib empty_store [op_create, op_pay_1])
            [1700200100000000, 1700200110000000, 1700200120000000])) = 3 \<and>
   map event_id (webhook_events (snd (deliver_all sample_lib ''test'' (sample_webhook ''evt_pay_2'' ''payment.succeeded'' 1705270400)
            (sample_verified ''body_pay_2'' ''sig_pay_2'' 1700200100)
            (run sample_lib empty_store [op_create, op_pay_1])
            [1700200100000000, 1700200110000000, 1700200120000000]))) = [''evt_pay_1'', ''evt_pay_2''] \<and>
   length (payments (snd (deliver_all sample_lib ''test'' (sample_webhook ''evt_pay_2'' ''payment.succeeded'' 1705270400)
            (sample_verified ''body_pay_2'' ''sig_pay_2'' 1700200100)
            (run sample_lib empty_store [op_create, op_pay_1])
            [1700200100000000, 1700200110000000, 1700200120000000]))) = 2 \<and>
   webhook_replayed (metrics (snd (deliver_all sample_lib ''test'' (sample_webhook ''evt_pay_2'' ''payment.succeeded'' 1705270400)
            (sample_verified ''body_pay_2'' ''sig_pay_2'' 1700200100)
            (run sample_lib empty_store [op_create, op_pay_1])
            [1700200100000000, 1700200110000000, 1700200120000000]))) = 2"
proof -
  let ?st = "run sample_lib empty_store [op_create, op_pay_1]"
  let ?w = "sample_webhook ''evt_pay_2'' ''payment.succeeded'' 1705270400"
  let ?v = "sample_verified ''body_pay_2'' ''sig_pay_2'' 1700200100"
  let ?kvs = "[(''event_id'', JStr ''evt_pay_2''), (''event_type'', JStr ''payment.succeeded''),
               (''payload_json'', JObj (sample_payload 1705270400))]"
  let ?payload = "\<lparr>p_provider_customer_id = ''cus_0123456789abcdef'',
          p_provider_subscription_id = ''sub_fedcba9876543210'', p_amount = 5000,
          p_currency = ''BRL'', p_current_period_end = PeriodNum (PyInt 1705270400),
          p_payment_id = Some ''pay_ok'', p_invoice_id = None\<rparr>"
  let ?D = "deliver_all sample_lib ''test'' ?w ?v ?st [1700200100000000, 1700200110000000, 1700200120000000]"
  have h1: "get_existing_event ?st ''test'' (w_event_id ?w) = None" by code_simp
  have h2: "json_loads sample_lib (raw_body ?v) = Inr (JObj ?kvs)" by code_simp
  have h3: "(case map_of ?kvs ''payload_json'' of None \<Rightarrow> JObj ?kvs | Some v \<Rightarrow> v) = JObj (sample_payload 1705270400)"
    by simp
  have h4: "w_event_type ?w = ''payment.succeeded'' \<or> w_event_type ?w = ''invoice.payment_failed''"
    by (simp add: sample_webhook_def)
  have h5: "model_validate sample_lib (sample_payload 1705270400) = Inr ?payload"
    by (rule sample_payload_validates)
  have h6: "get_customer_by_provider_id ?st (p_provider_customer_id ?payload) = Inr sample_customer"
    using sample_store_lookups(1) by simp
  have h7: "parse_period_end sample_lib 1700200100000000 (p_current_period_end ?payload) = Inr 1705270400000000"
    by (simp add: parse_period_end_def sample_lib_def)
  have h8: "get_subscription_by_provider_id ?st (p_provider_subscription_id ?payload) (cus_id sample_customer)
              = Inr sample_subscription"
    using sample_store_lookups(2) by (simp add: sample_customer_def)
  have h9: "\<not> 1705270400000000 < current_period_end sample_subscription"
    by (simp add: sample_subscription_def)
  have hb: "bind_integer sample_lib (p_amount ?payload) = None"
    by (simp add: sample_lib_def)
  have h10: "?D = (fst ?D, snd ?D)" by simp
  from identical_deliveries_idempotent [OF h1 h2 h3 h4 h5 h6 h7 h8 h9 hb h10]
  have "webhook_replayed (metrics (snd ?D)) = webhook_replayed (metrics ?st) + length [1700200110000000, 1700200120000000 :: int]"
    by blast
  moreover have "webhook_replayed (metrics ?st) = 0" by code_simp
  ultimately have r: "webhook_replayed (metrics (snd ?D)) = 2" by simp
  have l: "length (fst ?D) = 3" by code_simp
  have e: "map event_id (webhook_events (snd ?D)) = [''evt_pay_1'', ''evt_pay_2'']" by code_simp
  have p: "length (payments (snd ?D)) = 2" by code_simp
  from h1 h9 l e p r show ?thesis by simp
qed

section \<open>The admin reprocess\<close>




end
